theory Spec2Isabelle
  imports Main "HOL-Library.Word" "HOL-Library.Monad_Syntax" "HOL-Library.Signed_Division"
begin

unbundle bit_operations_syntax

section \<open>Data model of the pipeline-state compiler (icd/intel/pipeline.c)\<close>

text \<open>
  The embedding follows pipeline.c and fence.c function by function. A C \<open>assert\<close>
  that fires aborts the process: functions that contain one return an \<open>option\<close>,
  and \<open>None\<close> is the abort. The headers of the driver (genhw.h, pipeline_priv.h,
  xgl.h) are not part of the sources at hand, so the values of their macros are taken
  as parameters, grouped in the records below under the macros' own names.
\<close>

datatype XGL_RESULT =
    XGL_SUCCESS
  | XGL_NOT_READY
  | XGL_ERROR_UNAVAILABLE
  | XGL_ERROR_OUT_OF_MEMORY
  | XGL_ERROR_BAD_PIPELINE_DATA
  | XGL_ERROR_OTHER nat

datatype XGL_PRIMITIVE_TOPOLOGY =
    XGL_TOPOLOGY_POINT_LIST
  | XGL_TOPOLOGY_LINE_LIST
  | XGL_TOPOLOGY_LINE_STRIP
  | XGL_TOPOLOGY_TRIANGLE_LIST
  | XGL_TOPOLOGY_TRIANGLE_STRIP
  | XGL_TOPOLOGY_RECT_LIST
  | XGL_TOPOLOGY_QUAD_LIST
  | XGL_TOPOLOGY_QUAD_STRIP
  | XGL_TOPOLOGY_LINE_LIST_ADJ
  | XGL_TOPOLOGY_LINE_STRIP_ADJ
  | XGL_TOPOLOGY_TRIANGLE_LIST_ADJ
  | XGL_TOPOLOGY_TRIANGLE_STRIP_ADJ
  | XGL_TOPOLOGY_PATCH
  | XGL_TOPOLOGY_INVALID nat

datatype XGL_PROVOKING_VERTEX_CONVENTION =
    XGL_PROVOKING_VERTEX_FIRST
  | XGL_PROVOKING_VERTEX_LAST

datatype XGL_PIPELINE_SHADER_STAGE =
    XGL_SHADER_STAGE_VERTEX
  | XGL_SHADER_STAGE_TESS_CONTROL
  | XGL_SHADER_STAGE_TESS_EVALUATION
  | XGL_SHADER_STAGE_GEOMETRY
  | XGL_SHADER_STAGE_FRAGMENT
  | XGL_SHADER_STAGE_COMPUTE
  | XGL_SHADER_STAGE_INVALID nat

text \<open>Payloads the compiler copies but never inspects are kept as their raw words.\<close>

type_synonym raw = "nat list"

record XGL_FORMAT =
  channelFormat :: nat
  numericFormat :: nat

record XGL_VERTEX_INPUT_ATTRIBUTE_DESCRIPTION =
  binding :: nat
  format :: XGL_FORMAT
  offsetInBytes :: nat

text \<open>
  A count together with the array it counts is one list: \<open>bindingCount\<close> is
  \<open>length (pVertexBindingDescriptions vi)\<close> and \<open>attributeCount\<close> is
  \<open>length (pVertexAttributeDescriptions vi)\<close>.
\<close>

record XGL_PIPELINE_VERTEX_INPUT_CREATE_INFO =
  pVertexBindingDescriptions :: "raw list"
  pVertexAttributeDescriptions :: "XGL_VERTEX_INPUT_ATTRIBUTE_DESCRIPTION list"

record XGL_PIPELINE_IA_STATE_CREATE_INFO =
  topology :: XGL_PRIMITIVE_TOPOLOGY
  disableVertexReuse :: bool
  provokingVertex :: XGL_PROVOKING_VERTEX_CONVENTION
  primitiveRestartEnable :: bool
  primitiveRestartIndex :: "32 word"

record XGL_PIPELINE_RS_STATE_CREATE_INFO =
  depthClipEnable :: bool
  rasterizerDiscardEnable :: bool
  pointSize :: raw

record XGL_PIPELINE_TESS_STATE_CREATE_INFO =
  patchControlPoints :: nat
  optimalTessFactor :: raw

record XGL_PIPELINE_DB_STATE_CREATE_INFO =
  db_info_format :: XGL_FORMAT

record XGL_PIPELINE_SHADER =
  stage :: XGL_PIPELINE_SHADER_STAGE
  shader :: nat
  linkConstBufferInfo :: raw

text \<open>
  One node of the caller's chain: the \<open>struct_type\<close> tag of its header selects the
  constructor, the rest of the structure is the argument. \<open>XGL_STRUCTURE_TYPE_OTHER n\<close>
  is every tag value the switch of \<open>pipeline_create_info_init\<close> does not list.
  A chain is the list of its nodes in \<open>next\<close> order.
\<close>

datatype intel_pipeline_create_info_header =
    XGL_STRUCTURE_TYPE_GRAPHICS_PIPELINE_CREATE_INFO raw
  | XGL_STRUCTURE_TYPE_PIPELINE_VERTEX_INPUT_CREATE_INFO XGL_PIPELINE_VERTEX_INPUT_CREATE_INFO
  | XGL_STRUCTURE_TYPE_PIPELINE_IA_STATE_CREATE_INFO XGL_PIPELINE_IA_STATE_CREATE_INFO
  | XGL_STRUCTURE_TYPE_PIPELINE_DB_STATE_CREATE_INFO XGL_PIPELINE_DB_STATE_CREATE_INFO
  | XGL_STRUCTURE_TYPE_PIPELINE_CB_STATE_CREATE_INFO raw
  | XGL_STRUCTURE_TYPE_PIPELINE_RS_STATE_CREATE_INFO XGL_PIPELINE_RS_STATE_CREATE_INFO
  | XGL_STRUCTURE_TYPE_PIPELINE_TESS_STATE_CREATE_INFO XGL_PIPELINE_TESS_STATE_CREATE_INFO
  | XGL_STRUCTURE_TYPE_PIPELINE_SHADER_STAGE_CREATE_INFO XGL_PIPELINE_SHADER
  | XGL_STRUCTURE_TYPE_COMPUTE_PIPELINE_CREATE_INFO raw
  | XGL_STRUCTURE_TYPE_OTHER nat

record intel_pipeline_create_info =
  graphics :: raw
  vi :: XGL_PIPELINE_VERTEX_INPUT_CREATE_INFO
  ia :: XGL_PIPELINE_IA_STATE_CREATE_INFO
  db :: XGL_PIPELINE_DB_STATE_CREATE_INFO
  cb :: raw
  rs :: XGL_PIPELINE_RS_STATE_CREATE_INFO
  tess :: XGL_PIPELINE_TESS_STATE_CREATE_INFO
  vs :: XGL_PIPELINE_SHADER
  tcs :: XGL_PIPELINE_SHADER
  tes :: XGL_PIPELINE_SHADER
  gs :: XGL_PIPELINE_SHADER
  fs :: XGL_PIPELINE_SHADER
  compute :: raw

text \<open>
  \<open>gen\<close> is the value of \<open>intel_gpu_gen\<close>, that is \<open>INTEL_GEN(x) = (int) (x * 100)\<close>:
  600, 700 or 750.
\<close>

record intel_gpu =
  gen :: int
  gt :: int

text \<open>
  The slot counts are 32-bit unsigned values (\<open>XGL_UINT\<close>), as the other counts of the
  interface are.
\<close>

record intel_pipeline_shader =
  in_count :: "32 word"
  out_count :: "32 word"
  uses :: "32 word"

datatype intel_cmd_wa =
    INTEL_CMD_WA_GEN6_PRE_DEPTH_STALL_WRITE
  | INTEL_CMD_WA_GEN6_PRE_COMMAND_SCOREBOARD_STALL
  | INTEL_CMD_WA_GEN7_PRE_VS_DEPTH_STALL_WRITE
  | INTEL_CMD_WA_GEN7_POST_COMMAND_CS_STALL
  | INTEL_CMD_WA_GEN7_POST_COMMAND_DEPTH_STALL

text \<open>
  The fields of \<open>struct intel_pipeline\<close> that pipeline.c reads or writes. \<open>gpu\<close> is
  \<open>pipeline->dev->gpu\<close>; \<open>vb\<close> is the first \<open>vb_count\<close> entries of the binding
  array; \<open>wa_flags\<close> lists the flags that are ORed together; \<open>cmds\<close> is the whole
  command array and \<open>cmd_len\<close> the number of words in use. A field whose C name is taken
  by a field of another structure carries the prefix \<open>pipe_\<close>.
\<close>

record intel_pipeline =
  gpu :: intel_gpu
  active_shaders :: "32 word"
  pipe_vs :: intel_pipeline_shader
  pipe_gs :: intel_pipeline_shader
  pipe_topology :: XGL_PRIMITIVE_TOPOLOGY
  prim_type :: int
  disable_vs_cache :: bool
  provoking_vertex_tri :: int
  provoking_vertex_trifan :: int
  provoking_vertex_line :: int
  primitive_restart :: bool
  primitive_restart_index :: "32 word"
  pipe_depthClipEnable :: bool
  pipe_rasterizerDiscardEnable :: bool
  pipe_pointSize :: raw
  vb :: "raw list"
  wa_flags :: "intel_cmd_wa list"
  db_format :: XGL_FORMAT
  cb_state :: raw
  tess_state :: XGL_PIPELINE_TESS_STATE_CREATE_INFO
  cmds :: "32 word list"
  cmd_len :: nat

subsection \<open>Macros of the absent headers, as parameters\<close>

record shader_flags =
  SHADER_VERTEX_FLAG :: "32 word"
  SHADER_TESS_CONTROL_FLAG :: "32 word"
  SHADER_TESS_EVAL_FLAG :: "32 word"
  SHADER_GEOMETRY_FLAG :: "32 word"
  SHADER_FRAGMENT_FLAG :: "32 word"
  SHADER_COMPUTE_FLAG :: "32 word"

text \<open>An instance with one bit per stage, bit \<open>i\<close> for the \<open>i\<close>-th stage enumerator.\<close>

definition stage_bits :: shader_flags where
  "stage_bits = \<lparr> SHADER_VERTEX_FLAG = 1, SHADER_TESS_CONTROL_FLAG = 2,
     SHADER_TESS_EVAL_FLAG = 4, SHADER_GEOMETRY_FLAG = 8,
     SHADER_FRAGMENT_FLAG = 16, SHADER_COMPUTE_FLAG = 32 \<rparr>"


text \<open>
  genhw.h: the value of \<open>GEN6_RENDER_CMD(3D, op)\<close> (and \<open>GEN7_RENDER_CMD\<close>) for each
  command this file emits.
\<close>

record render_cmds =
  CMD_3DSTATE_URB :: "32 word"
  CMD_3DSTATE_VERTEX_ELEMENTS :: "32 word"
  CMD_3DSTATE_URB_VS :: "32 word"
  CMD_3DSTATE_URB_GS :: "32 word"
  CMD_3DSTATE_URB_HS :: "32 word"
  CMD_3DSTATE_URB_DS :: "32 word"
  CMD_3DSTATE_PUSH_CONSTANT_ALLOC_VS :: "32 word"
  CMD_3DSTATE_PUSH_CONSTANT_ALLOC_PS :: "32 word"
  CMD_3DSTATE_PUSH_CONSTANT_ALLOC_HS :: "32 word"
  CMD_3DSTATE_PUSH_CONSTANT_ALLOC_DS :: "32 word"
  CMD_3DSTATE_PUSH_CONSTANT_ALLOC_GS :: "32 word"
  CMD_3DSTATE_HS :: "32 word"
  CMD_3DSTATE_TE :: "32 word"
  CMD_3DSTATE_DS :: "32 word"

record urb_fields =
  GEN6_URB_DW1_VS_ENTRY_SIZE__SHIFT :: nat
  GEN6_URB_DW1_VS_ENTRY_COUNT__SHIFT :: nat
  GEN6_URB_DW2_GS_ENTRY_COUNT__SHIFT :: nat
  GEN6_URB_DW2_GS_ENTRY_SIZE__SHIFT :: nat
  GEN7_URB_ANY_DW1_OFFSET__SHIFT :: nat
  GEN7_URB_ANY_DW1_ENTRY_SIZE__SHIFT :: nat
  GEN7_PCB_ALLOC_ANY_DW1_OFFSET__SHIFT :: nat
  GEN7_PCB_ALLOC_ANY_DW1_SIZE__SHIFT :: nat

record ve_fields =
  GEN6_VE_STATE_DW0_VB_INDEX__SHIFT :: nat
  GEN6_VE_STATE_DW0_VALID :: "32 word"
  GEN6_VE_STATE_DW0_FORMAT__SHIFT :: nat
  GEN6_VE_STATE_DW1_COMP0__SHIFT :: nat
  GEN6_VE_STATE_DW1_COMP1__SHIFT :: nat
  GEN6_VE_STATE_DW1_COMP2__SHIFT :: nat
  GEN6_VE_STATE_DW1_COMP3__SHIFT :: nat

record vfcomps =
  GEN6_VFCOMP_NOSTORE :: int
  GEN6_VFCOMP_STORE_SRC :: int
  GEN6_VFCOMP_STORE_0 :: int
  GEN6_VFCOMP_STORE_1_FP :: int
  GEN6_VFCOMP_STORE_1_INT :: int
  GEN6_VFCOMP_STORE_VID :: int
  GEN6_VFCOMP_STORE_IID :: int

record prims =
  GEN6_3DPRIM_POINTLIST :: int
  GEN6_3DPRIM_LINELIST :: int
  GEN6_3DPRIM_LINESTRIP :: int
  GEN6_3DPRIM_TRILIST :: int
  GEN6_3DPRIM_TRISTRIP :: int
  GEN6_3DPRIM_RECTLIST :: int
  GEN6_3DPRIM_QUADLIST :: int
  GEN6_3DPRIM_QUADSTRIP :: int
  GEN6_3DPRIM_LINELIST_ADJ :: int
  GEN6_3DPRIM_LINESTRIP_ADJ :: int
  GEN6_3DPRIM_TRILIST_ADJ :: int
  GEN6_3DPRIM_TRISTRIP_ADJ :: int
  GEN7_3DPRIM_PATCHLIST_1 :: int

text \<open>
  \<open>INTEL_PSO_CMD_ENTRIES\<close> is the capacity of \<open>pipeline->cmds\<close>, \<open>ARRAY_SIZE_vb\<close> is
  \<open>ARRAY_SIZE(pipeline->vb)\<close>.
\<close>

record genhw =
  render_cmd :: render_cmds
  urb :: urb_fields
  ve :: ve_fields
  vfcomp :: vfcomps
  prim :: prims
  flags :: shader_flags
  INTEL_SHADER_USE_VID :: "32 word"
  INTEL_SHADER_USE_IID :: "32 word"
  INTEL_PSO_CMD_ENTRIES :: nat
  ARRAY_SIZE_vb :: nat

text \<open>
  Functions of the driver that live in other files (format.c, shader.c, obj.c).
  \<open>pipeline_build_shaders\<close> fills \<open>pipeline->vs\<close>, \<open>pipeline->gs\<close> and
  \<open>pipeline->active_shaders\<close>; \<open>intel_base_create\<close> is the freshly allocated object,
  \<open>None\<close> for a NULL return.
\<close>

record externs =
  intel_format_translate_color :: "intel_gpu \<Rightarrow> XGL_FORMAT \<Rightarrow> int"
  icd_format_is_int :: "XGL_FORMAT \<Rightarrow> bool"
  icd_format_get_channel_count :: "XGL_FORMAT \<Rightarrow> nat"
  pipeline_build_shaders ::
    "intel_pipeline \<Rightarrow> intel_pipeline_create_info \<Rightarrow> XGL_RESULT \<times> intel_pipeline"
  intel_base_create :: "intel_pipeline option"

text \<open>\<open>INTEL_GPU_ASSERT(gpu, min, max)\<close>, with the bounds already as \<open>INTEL_GEN\<close> values.\<close>

definition INTEL_GPU_ASSERT :: "intel_gpu \<Rightarrow> int \<Rightarrow> int \<Rightarrow> bool" where
  "INTEL_GPU_ASSERT g lo hi = (lo \<le> gen g \<and> gen g \<le> hi)"

section \<open>Command buffer: \<open>pipeline_cmd_ptr\<close>\<close>

text \<open>
  \<open>assert(pipeline->cmd_len + cmd_len < INTEL_PSO_CMD_ENTRIES)\<close>; the returned pointer
  is the index of the first reserved word. The first argument is
  \<open>INTEL_PSO_CMD_ENTRIES\<close>. Every caller passes a small non-negative \<open>cmd_len\<close>
  (a \<open>uint8_t\<close> or a constant), so the length and the request are naturals.
\<close>

definition pipeline_cmd_ptr ::
  "nat \<Rightarrow> intel_pipeline \<Rightarrow> nat \<Rightarrow> (nat \<times> intel_pipeline) option" where
  "pipeline_cmd_ptr entries pipeline n =
     (if cmd_len pipeline + n < entries
      then Some (cmd_len pipeline, pipeline\<lparr>cmd_len := cmd_len pipeline + n\<rparr>)
      else None)"

section \<open>Stage and topology validation: \<open>pipeline_validate\<close>\<close>

definition pipeline_validate :: "shader_flags \<Rightarrow> intel_pipeline \<Rightarrow> XGL_RESULT" where
  "pipeline_validate fl pipeline =
     (if active_shaders pipeline AND SHADER_VERTEX_FLAG fl = 0
      then XGL_ERROR_BAD_PIPELINE_DATA
      else if (active_shaders pipeline AND SHADER_TESS_CONTROL_FLAG fl = 0) \<noteq>
              (active_shaders pipeline AND SHADER_TESS_EVAL_FLAG fl = 0)
      then XGL_ERROR_BAD_PIPELINE_DATA
      else if active_shaders pipeline AND SHADER_COMPUTE_FLAG fl \<noteq> 0 \<and>
              active_shaders pipeline AND
                (SHADER_VERTEX_FLAG fl OR SHADER_TESS_CONTROL_FLAG fl OR
                 SHADER_TESS_EVAL_FLAG fl OR SHADER_GEOMETRY_FLAG fl OR
                 SHADER_FRAGMENT_FLAG fl) \<noteq> 0
      then XGL_ERROR_BAD_PIPELINE_DATA
      else if active_shaders pipeline AND
                (SHADER_TESS_CONTROL_FLAG fl OR SHADER_TESS_EVAL_FLAG fl) \<noteq> 0 \<and>
              pipe_topology pipeline \<noteq> XGL_TOPOLOGY_PATCH
      then XGL_ERROR_BAD_PIPELINE_DATA
      else if pipe_topology pipeline = XGL_TOPOLOGY_PATCH \<and>
              active_shaders pipeline AND
                NOT (SHADER_TESS_CONTROL_FLAG fl OR SHADER_TESS_EVAL_FLAG fl) \<noteq> 0
      then XGL_ERROR_BAD_PIPELINE_DATA
      else XGL_SUCCESS)"

text \<open>
  The stores \<open>dw[0] = ...; dw[1] = ...\<close> through the pointer returned by
  \<open>pipeline_cmd_ptr\<close>: the words go to consecutive cells of \<open>pipeline->cmds\<close> from
  index \<open>dw\<close> on. A store outside the array is \<open>None\<close>.
\<close>

definition store_words ::
  "intel_pipeline \<Rightarrow> nat \<Rightarrow> 32 word list \<Rightarrow> intel_pipeline option" where
  "store_words pipeline dw ws =
     (if dw + length ws \<le> length (cmds pipeline)
      then Some (pipeline\<lparr>cmds :=
             take dw (cmds pipeline) @ ws @ drop (dw + length ws) (cmds pipeline)\<rparr>)
      else None)"

section \<open>URB allocation\<close>

text \<open>The local variables of the two URB allocators at the point where they emit.\<close>

record urb_alloc =
  ua_urb_size :: int
  ua_urb_offset :: int
  ua_vs_size :: int
  ua_gs_size :: int
  ua_vs_alloc_size :: int
  ua_gs_alloc_size :: int
  ua_vs_entry_count :: int
  ua_gs_entry_count :: int

text \<open>
  C \<open>int\<close> is 32 bits wide. \<open>int32 k\<close> is the value an \<open>int\<close> holds when the exact
  result of an operation is \<open>k\<close>: the two's-complement wrap. That is what a conversion
  from a wider or an unsigned type produces; for signed overflow, which C leaves
  undefined, it is the outcome on the machines this driver runs on. The C operator \<open>/\<close>
  on \<open>int\<close> truncates towards zero: it is \<open>sdiv\<close>.
\<close>

definition int32 :: "int \<Rightarrow> int" where
  "int32 k = signed_take_bit 31 k"

text \<open>
  The pieces the two allocators share. \<open>urb_entry_sizes\<close>: \<open>vs_entry_size\<close> and
  \<open>gs_entry_size\<close> in bytes; a slot count is converted to \<open>int\<close>, and
  \<open>*= sizeof(float) * 4\<close> stores the product with 16 back into the \<open>int\<close> (\<open>gs\<close>
  points into the pipeline object and is never NULL). \<open>urb_partition\<close>: \<open>vs_size\<close> and
  \<open>gs_size\<close> from the space to share. \<open>urb_alloc_size\<close>: the allocation size in rows
  of \<open>row\<close> bytes, \<open>(entry_size + row - 1) / row\<close>, with 0 replaced by 1.
\<close>

definition urb_entry_sizes :: "intel_pipeline \<Rightarrow> int \<times> int" where
  "urb_entry_sizes pipeline =
     (let vs_entry_size =
            (if in_count (pipe_vs pipeline) \<ge> out_count (pipe_vs pipeline)
             then sint (in_count (pipe_vs pipeline)) else sint (out_count (pipe_vs pipeline)));
          gs_entry_size = sint (out_count (pipe_gs pipeline));
          vs_entry_size = int32 (vs_entry_size * (4 * 4));
          gs_entry_size = int32 (gs_entry_size * (4 * 4))
      in (vs_entry_size, gs_entry_size))"

definition urb_partition :: "shader_flags \<Rightarrow> intel_pipeline \<Rightarrow> int \<Rightarrow> int \<times> int" where
  "urb_partition fl pipeline space =
     (if active_shaders pipeline AND SHADER_GEOMETRY_FLAG fl \<noteq> 0
      then (space sdiv 2, space sdiv 2)
      else (space, 0))"

definition urb_alloc_size :: "int \<Rightarrow> int \<Rightarrow> int" where
  "urb_alloc_size row entry_size =
     (let alloc_size = int32 (entry_size + row - 1) sdiv row
      in if alloc_size = 0 then 1 else alloc_size)"

text \<open>
  \<open>pipeline_build_urb_alloc_gen6\<close> up to the call of \<open>pipeline_cmd_ptr\<close>; \<open>& ~3\<close> is
  \<open>AND NOT 3\<close>. The older generation has no reserved offset: \<open>ua_urb_offset\<close> is 0.
\<close>

definition entry_count_gen6 :: "int \<Rightarrow> int \<Rightarrow> int" where
  "entry_count_gen6 part_size alloc_size =
     (let entry_count = (part_size sdiv 128 sdiv alloc_size) AND NOT 3
      in if entry_count > 256 then 256 else entry_count)"

definition urb_alloc_gen6 :: "shader_flags \<Rightarrow> intel_pipeline \<Rightarrow> urb_alloc option" where
  "urb_alloc_gen6 fl pipeline =
     (let urb_size = (if gt (gpu pipeline) = 2 then 64 else 32) * 1024;
          (vs_entry_size, gs_entry_size) = urb_entry_sizes pipeline;
          (vs_size, gs_size) = urb_partition fl pipeline urb_size;
          vs_alloc_size = urb_alloc_size 128 vs_entry_size;
          gs_alloc_size = urb_alloc_size 128 gs_entry_size
      in if \<not> INTEL_GPU_ASSERT (gpu pipeline) 600 600 then None
         else if \<not> (vs_alloc_size \<le> 5 \<and> gs_alloc_size \<le> 5) then None
         else if \<not> entry_count_gen6 vs_size vs_alloc_size \<ge> 24 then None
         else Some \<lparr> ua_urb_size = urb_size, ua_urb_offset = 0,
                     ua_vs_size = vs_size, ua_gs_size = gs_size,
                     ua_vs_alloc_size = vs_alloc_size, ua_gs_alloc_size = gs_alloc_size,
                     ua_vs_entry_count = entry_count_gen6 vs_size vs_alloc_size,
                     ua_gs_entry_count = entry_count_gen6 gs_size gs_alloc_size \<rparr>)"

definition urb_words_gen6 :: "genhw \<Rightarrow> urb_alloc \<Rightarrow> 32 word list" where
  "urb_words_gen6 hw u =
     (let cmd_len = 3 :: int in
      [ CMD_3DSTATE_URB (render_cmd hw) OR word_of_int (cmd_len - 2),
        word_of_int
          (push_bit (GEN6_URB_DW1_VS_ENTRY_SIZE__SHIFT (urb hw)) (ua_vs_alloc_size u - 1) OR
           push_bit (GEN6_URB_DW1_VS_ENTRY_COUNT__SHIFT (urb hw)) (ua_vs_entry_count u)),
        word_of_int
          (push_bit (GEN6_URB_DW2_GS_ENTRY_COUNT__SHIFT (urb hw)) (ua_gs_entry_count u) OR
           push_bit (GEN6_URB_DW2_GS_ENTRY_SIZE__SHIFT (urb hw)) (ua_gs_alloc_size u - 1)) ])"

definition pipeline_build_urb_alloc_gen6 ::
  "genhw \<Rightarrow> intel_pipeline \<Rightarrow> intel_pipeline option" where
  "pipeline_build_urb_alloc_gen6 hw pipeline =
     do {
       u \<leftarrow> urb_alloc_gen6 (flags hw) pipeline;
       (dw, pipeline) \<leftarrow> pipeline_cmd_ptr (INTEL_PSO_CMD_ENTRIES hw) pipeline 3;
       store_words pipeline dw (urb_words_gen6 hw u)
     }"

text \<open>
  \<open>pipeline_build_urb_alloc_gen7\<close> up to the call of \<open>pipeline_cmd_ptr\<close>;
  \<open>ua_urb_offset\<close> is the value of \<open>urb_offset\<close> before the commands are written.
  \<open>max_entry_counts\<close> is the pair \<open>max_vs_entry_count\<close>, \<open>max_gs_entry_count\<close> of
  the branch taken.
\<close>

definition max_entry_counts :: "intel_gpu \<Rightarrow> int \<times> int" where
  "max_entry_counts g =
     (if gen g \<ge> 750
      then (if gt g \<ge> 2 then 1664 else 640, if gt g \<ge> 2 then 640 else 256)
      else (if gt g = 2 then 704 else 512, if gt g = 2 then 320 else 192))"

definition urb_alloc_gen7 :: "shader_flags \<Rightarrow> intel_pipeline \<Rightarrow> urb_alloc option" where
  "urb_alloc_gen7 fl pipeline =
     (let g = gpu pipeline;
          urb_size = (if gt g = 3 then 512 else if gt g = 2 then 256 else 128) * 1024;
          urb_offset = (if gt g = 3 then 32 else 16) * 1024;
          (vs_entry_size, gs_entry_size) = urb_entry_sizes pipeline;
          (vs_size, gs_size) = urb_partition fl pipeline (urb_size - urb_offset);
          vs_alloc_size = urb_alloc_size 64 vs_entry_size;
          gs_alloc_size = urb_alloc_size 64 gs_entry_size;
          vs_alloc_size = (if vs_alloc_size = 5 then 6 else vs_alloc_size);
          vs_entry_count = (vs_size sdiv 64 sdiv vs_alloc_size) AND NOT 7;
          gs_entry_count = (gs_size sdiv 64 sdiv gs_alloc_size) AND NOT 7;
          (max_vs_entry_count, max_gs_entry_count) = max_entry_counts g
      in if \<not> INTEL_GPU_ASSERT g 700 750 then None
         else if \<not> vs_entry_count \<ge> 32 then None
         else Some \<lparr> ua_urb_size = urb_size, ua_urb_offset = urb_offset,
                     ua_vs_size = vs_size, ua_gs_size = gs_size,
                     ua_vs_alloc_size = vs_alloc_size, ua_gs_alloc_size = gs_alloc_size,
                     ua_vs_entry_count =
                       (if vs_entry_count \<ge> max_vs_entry_count then max_vs_entry_count
                        else vs_entry_count),
                     ua_gs_entry_count =
                       (if gs_entry_count \<ge> max_gs_entry_count then max_gs_entry_count
                        else gs_entry_count) \<rparr>)"

definition urb_words_gen7 :: "genhw \<Rightarrow> urb_alloc \<Rightarrow> 32 word list" where
  "urb_words_gen7 hw u =
     (let cmd_len = 2 :: int;
          offset_shift = GEN7_URB_ANY_DW1_OFFSET__SHIFT (urb hw);
          size_shift = GEN7_URB_ANY_DW1_ENTRY_SIZE__SHIFT (urb hw);
          urb_offset = ua_urb_offset u;
          urb_offset' = (if ua_gs_size u \<noteq> 0 then urb_offset + ua_vs_size u else urb_offset)
      in
      [ CMD_3DSTATE_URB_VS (render_cmd hw) OR word_of_int (cmd_len - 2),
        word_of_int
          (push_bit offset_shift (urb_offset sdiv 8192) OR
           push_bit size_shift (ua_vs_alloc_size u - 1) OR
           ua_vs_entry_count u),
        CMD_3DSTATE_URB_GS (render_cmd hw) OR word_of_int (cmd_len - 2),
        word_of_int
          (push_bit offset_shift (urb_offset' sdiv 8192) OR
           push_bit size_shift (ua_gs_alloc_size u - 1) OR
           ua_gs_entry_count u),
        CMD_3DSTATE_URB_HS (render_cmd hw) OR word_of_int (cmd_len - 2),
        word_of_int (push_bit offset_shift (urb_offset' sdiv 8192)),
        CMD_3DSTATE_URB_DS (render_cmd hw) OR word_of_int (cmd_len - 2),
        word_of_int (push_bit offset_shift (urb_offset' sdiv 8192)) ])"

definition pipeline_build_urb_alloc_gen7 ::
  "genhw \<Rightarrow> intel_pipeline \<Rightarrow> intel_pipeline option" where
  "pipeline_build_urb_alloc_gen7 hw pipeline =
     do {
       u \<leftarrow> urb_alloc_gen7 (flags hw) pipeline;
       (dw, pipeline) \<leftarrow> pipeline_cmd_ptr (INTEL_PSO_CMD_ENTRIES hw) pipeline (2 * 4);
       store_words pipeline dw (urb_words_gen7 hw u)
     }"

section \<open>Push-constant allocation (newer generation)\<close>

text \<open>
  \<open>offset\<close> and \<open>size\<close> are \<open>uint32_t\<close>, \<open>end\<close> is an \<open>int\<close>; where the two meet
  the \<open>int\<close> is converted to unsigned. Each \<open>assert(!"...")\<close> aborts when reached, and
  so does \<open>assert(!size)\<close> unless \<open>size\<close> is 0.
\<close>

definition push_const_words_gen7 :: "genhw \<Rightarrow> 32 word list option" where
  "push_const_words_gen7 hw =
     (let cmd_len = 2 :: int;
          offset = 0 :: 32 word;
          size = 8192 :: 32 word;
          end = uint ((offset + size) div 1024)
      in if end > 16 then None
         else
           let offset = (offset + 1023) div 1024
           in if offset > 15 then None
              else if offset > word_of_int end \<and> size \<noteq> 0 then None
              else
                let offset = (if offset > word_of_int end then word_of_int end else offset);
                    size = word_of_int end - offset
                in if size > 15 then None
                   else
                     let off_shift = GEN7_PCB_ALLOC_ANY_DW1_OFFSET__SHIFT (urb hw);
                         size_shift = GEN7_PCB_ALLOC_ANY_DW1_SIZE__SHIFT (urb hw)
                     in Some
                       [ CMD_3DSTATE_PUSH_CONSTANT_ALLOC_VS (render_cmd hw) OR
                           word_of_int (cmd_len - 2),
                         push_bit off_shift offset OR push_bit size_shift size,
                         CMD_3DSTATE_PUSH_CONSTANT_ALLOC_PS (render_cmd hw) OR
                           word_of_int (cmd_len - 2),
                         push_bit off_shift size OR push_bit size_shift size,
                         CMD_3DSTATE_PUSH_CONSTANT_ALLOC_HS (render_cmd hw) OR
                           word_of_int (cmd_len - 2),
                         push_bit off_shift 0 OR push_bit size_shift 0,
                         CMD_3DSTATE_PUSH_CONSTANT_ALLOC_DS (render_cmd hw) OR
                           word_of_int (cmd_len - 2),
                         push_bit off_shift 0 OR push_bit size_shift 0,
                         CMD_3DSTATE_PUSH_CONSTANT_ALLOC_GS (render_cmd hw) OR
                           word_of_int (cmd_len - 2),
                         push_bit off_shift 0 OR push_bit size_shift 0 ])"

definition pipeline_build_push_const_alloc_gen7 ::
  "genhw \<Rightarrow> intel_pipeline \<Rightarrow> intel_pipeline option" where
  "pipeline_build_push_const_alloc_gen7 hw pipeline =
     (if \<not> INTEL_GPU_ASSERT (gpu pipeline) 700 750 then None
      else do {
        ws \<leftarrow> push_const_words_gen7 hw;
        (dw, pipeline) \<leftarrow> pipeline_cmd_ptr (INTEL_PSO_CMD_ENTRIES hw) pipeline (2 * 5);
        store_words pipeline dw ws
      })"

section \<open>Vertex elements\<close>

text \<open>
  The \<open>comps\<close> array of one declared attribute: the four defaults, then the \<open>switch\<close>
  on the channel count, whose cases fall through from 4 down to 1.
\<close>

definition vertex_element_comps :: "vfcomps \<Rightarrow> bool \<Rightarrow> nat \<Rightarrow> int list" where
  "vertex_element_comps vf is_int channel_count =
     (let comps = [GEN6_VFCOMP_STORE_0 vf, GEN6_VFCOMP_STORE_0 vf, GEN6_VFCOMP_STORE_0 vf,
                   if is_int then GEN6_VFCOMP_STORE_1_INT vf else GEN6_VFCOMP_STORE_1_FP vf];
          comps = (if channel_count = 4 then comps[3 := GEN6_VFCOMP_STORE_SRC vf] else comps);
          comps = (if channel_count \<in> {4, 3}
                   then comps[2 := GEN6_VFCOMP_STORE_SRC vf] else comps);
          comps = (if channel_count \<in> {4, 3, 2}
                   then comps[1 := GEN6_VFCOMP_STORE_SRC vf] else comps);
          comps = (if channel_count \<in> {4, 3, 2, 1}
                   then comps[0 := GEN6_VFCOMP_STORE_SRC vf] else comps)
      in comps)"

text \<open>The second word of a VERTEX_ELEMENT_STATE: the four \<open>comps\<close> shifted into place.\<close>

definition ve_state_dw1 :: "ve_fields \<Rightarrow> int list \<Rightarrow> 32 word" where
  "ve_state_dw1 f comps =
     word_of_int
       (push_bit (GEN6_VE_STATE_DW1_COMP0__SHIFT f) (comps ! 0) OR
        push_bit (GEN6_VE_STATE_DW1_COMP1__SHIFT f) (comps ! 1) OR
        push_bit (GEN6_VE_STATE_DW1_COMP2__SHIFT f) (comps ! 2) OR
        push_bit (GEN6_VE_STATE_DW1_COMP3__SHIFT f) (comps ! 3))"

text \<open>
  The body of the \<open>for\<close> loop over the declared attributes: the two words of each
  attribute in order, \<open>None\<close> when \<open>assert(attr->offsetInBytes <= 2047)\<close> fires.
\<close>

fun vertex_element_states ::
  "genhw \<Rightarrow> externs \<Rightarrow> intel_gpu \<Rightarrow> XGL_VERTEX_INPUT_ATTRIBUTE_DESCRIPTION list
     \<Rightarrow> 32 word list option" where
  "vertex_element_states hw ext g [] = Some []"
| "vertex_element_states hw ext g (attr # rest) =
     (let fmt = intel_format_translate_color ext g (format attr);
          comps = vertex_element_comps (vfcomp hw) (icd_format_is_int ext (format attr))
                    (icd_format_get_channel_count ext (format attr))
      in if \<not> offsetInBytes attr \<le> 2047 then None
         else
           map_option
             (\<lambda>ws.
                [ push_bit (GEN6_VE_STATE_DW0_VB_INDEX__SHIFT (ve hw)) (word_of_nat (binding attr)) OR
                  GEN6_VE_STATE_DW0_VALID (ve hw) OR
                  push_bit (GEN6_VE_STATE_DW0_FORMAT__SHIFT (ve hw)) (word_of_int fmt) OR
                  word_of_nat (offsetInBytes attr),
                  ve_state_dw1 (ve hw) comps ] @ ws)
             (vertex_element_states hw ext g rest))"

text \<open>The extra element for a consumed vertex or instance index.\<close>

definition vertex_element_extra :: "genhw \<Rightarrow> intel_pipeline_shader \<Rightarrow> 32 word list" where
  "vertex_element_extra hw vsh =
     (let comps =
            [ if uses vsh AND INTEL_SHADER_USE_VID hw \<noteq> 0
              then GEN6_VFCOMP_STORE_VID (vfcomp hw) else GEN6_VFCOMP_STORE_0 (vfcomp hw),
              if uses vsh AND INTEL_SHADER_USE_IID hw \<noteq> 0
              then GEN6_VFCOMP_STORE_IID (vfcomp hw) else GEN6_VFCOMP_NOSTORE (vfcomp hw),
              GEN6_VFCOMP_NOSTORE (vfcomp hw),
              GEN6_VFCOMP_NOSTORE (vfcomp hw) ]
      in [GEN6_VE_STATE_DW0_VALID (ve hw), ve_state_dw1 (ve hw) comps])"

text \<open>\<open>cmd_len\<close> is a \<open>uint8_t\<close>: its arithmetic is modulo 256.\<close>

definition pipeline_build_vertex_elements ::
  "genhw \<Rightarrow> externs \<Rightarrow> intel_pipeline \<Rightarrow> intel_pipeline_create_info
     \<Rightarrow> intel_pipeline option" where
  "pipeline_build_vertex_elements hw ext pipeline info =
     (let attrs = pVertexAttributeDescriptions (vi info);
          special = (uses (pipe_vs pipeline) AND (INTEL_SHADER_USE_VID hw OR INTEL_SHADER_USE_IID hw) \<noteq> 0);
          cmd_len = (1 + 2 * length attrs) mod 256;
          cmd_len = (if special then (cmd_len + 2) mod 256 else cmd_len)
      in if \<not> INTEL_GPU_ASSERT (gpu pipeline) 600 750 then None
         else if cmd_len = 1 then Some pipeline
         else do {
           (dw, pipeline) \<leftarrow> pipeline_cmd_ptr (INTEL_PSO_CMD_ENTRIES hw) pipeline cmd_len;
           elems \<leftarrow> vertex_element_states hw ext (gpu pipeline) attrs;
           store_words pipeline dw
             ([CMD_3DSTATE_VERTEX_ELEMENTS (render_cmd hw) OR
                 word_of_int (int cmd_len - 2)] @
              elems @
              (if special then vertex_element_extra hw (pipe_vs pipeline) else []))
         })"

section \<open>Tessellation stubs\<close>

definition pipeline_build_gs :: "genhw \<Rightarrow> intel_pipeline \<Rightarrow> intel_pipeline option" where
  "pipeline_build_gs hw pipeline = Some pipeline"

definition pipeline_build_hs :: "genhw \<Rightarrow> intel_pipeline \<Rightarrow> intel_pipeline option" where
  "pipeline_build_hs hw pipeline =
     (let cmd_len = 7 :: int;
          dw0 = CMD_3DSTATE_HS (render_cmd hw) OR word_of_int (cmd_len - 2)
      in if \<not> INTEL_GPU_ASSERT (gpu pipeline) 700 750 then None
         else do {
           (dw, pipeline) \<leftarrow> pipeline_cmd_ptr (INTEL_PSO_CMD_ENTRIES hw) pipeline 7;
           store_words pipeline dw [dw0, 0, 0, 0, 0, 0, 0]
         })"

definition pipeline_build_te :: "genhw \<Rightarrow> intel_pipeline \<Rightarrow> intel_pipeline option" where
  "pipeline_build_te hw pipeline =
     (let cmd_len = 4 :: int;
          dw0 = CMD_3DSTATE_TE (render_cmd hw) OR word_of_int (cmd_len - 2)
      in if \<not> INTEL_GPU_ASSERT (gpu pipeline) 700 750 then None
         else do {
           (dw, pipeline) \<leftarrow> pipeline_cmd_ptr (INTEL_PSO_CMD_ENTRIES hw) pipeline 4;
           store_words pipeline dw [dw0, 0, 0, 0]
         })"

definition pipeline_build_ds :: "genhw \<Rightarrow> intel_pipeline \<Rightarrow> intel_pipeline option" where
  "pipeline_build_ds hw pipeline =
     (let cmd_len = 6 :: int;
          dw0 = CMD_3DSTATE_DS (render_cmd hw) OR word_of_int (cmd_len - 2)
      in if \<not> INTEL_GPU_ASSERT (gpu pipeline) 700 750 then None
         else do {
           (dw, pipeline) \<leftarrow> pipeline_cmd_ptr (INTEL_PSO_CMD_ENTRIES hw) pipeline 6;
           store_words pipeline dw [dw0, 0, 0, 0, 0, 0]
         })"

section \<open>Input assembly and rasterizer state\<close>

definition pipeline_build_ia ::
  "genhw \<Rightarrow> intel_pipeline \<Rightarrow> intel_pipeline_create_info \<Rightarrow> XGL_RESULT \<times> intel_pipeline" where
  "pipeline_build_ia hw pipeline info =
     (let pipeline = pipeline\<lparr> pipe_topology := topology (ia info),
                                disable_vs_cache := disableVertexReuse (ia info) \<rparr>;
          pipeline =
            (if provokingVertex (ia info) = XGL_PROVOKING_VERTEX_FIRST
             then pipeline\<lparr> provoking_vertex_tri := 0, provoking_vertex_trifan := 1,
                             provoking_vertex_line := 0 \<rparr>
             else pipeline\<lparr> provoking_vertex_tri := 2, provoking_vertex_trifan := 2,
                             provoking_vertex_line := 1 \<rparr>);
          code =
            (case topology (ia info) of
               XGL_TOPOLOGY_POINT_LIST \<Rightarrow> Some (GEN6_3DPRIM_POINTLIST (prim hw))
             | XGL_TOPOLOGY_LINE_LIST \<Rightarrow> Some (GEN6_3DPRIM_LINELIST (prim hw))
             | XGL_TOPOLOGY_LINE_STRIP \<Rightarrow> Some (GEN6_3DPRIM_LINESTRIP (prim hw))
             | XGL_TOPOLOGY_TRIANGLE_LIST \<Rightarrow> Some (GEN6_3DPRIM_TRILIST (prim hw))
             | XGL_TOPOLOGY_TRIANGLE_STRIP \<Rightarrow> Some (GEN6_3DPRIM_TRISTRIP (prim hw))
             | XGL_TOPOLOGY_RECT_LIST \<Rightarrow> Some (GEN6_3DPRIM_RECTLIST (prim hw))
             | XGL_TOPOLOGY_QUAD_LIST \<Rightarrow> Some (GEN6_3DPRIM_QUADLIST (prim hw))
             | XGL_TOPOLOGY_QUAD_STRIP \<Rightarrow> Some (GEN6_3DPRIM_QUADSTRIP (prim hw))
             | XGL_TOPOLOGY_LINE_LIST_ADJ \<Rightarrow> Some (GEN6_3DPRIM_LINELIST_ADJ (prim hw))
             | XGL_TOPOLOGY_LINE_STRIP_ADJ \<Rightarrow> Some (GEN6_3DPRIM_LINESTRIP_ADJ (prim hw))
             | XGL_TOPOLOGY_TRIANGLE_LIST_ADJ \<Rightarrow> Some (GEN6_3DPRIM_TRILIST_ADJ (prim hw))
             | XGL_TOPOLOGY_TRIANGLE_STRIP_ADJ \<Rightarrow> Some (GEN6_3DPRIM_TRISTRIP_ADJ (prim hw))
             | XGL_TOPOLOGY_PATCH \<Rightarrow>
                 (if patchControlPoints (tess info) = 0 \<or> patchControlPoints (tess info) > 32
                  then None
                  else Some (GEN7_3DPRIM_PATCHLIST_1 (prim hw) +
                             int (patchControlPoints (tess info)) - 1))
             | XGL_TOPOLOGY_INVALID _ \<Rightarrow> None)
      in case code of
           None \<Rightarrow> (XGL_ERROR_BAD_PIPELINE_DATA, pipeline)
         | Some c \<Rightarrow>
             (XGL_SUCCESS,
              if primitiveRestartEnable (ia info)
              then pipeline\<lparr> prim_type := c, primitive_restart := True,
                              primitive_restart_index := primitiveRestartIndex (ia info) \<rparr>
              else pipeline\<lparr> prim_type := c, primitive_restart := False \<rparr>))"

definition pipeline_rs_state ::
  "intel_pipeline \<Rightarrow> XGL_PIPELINE_RS_STATE_CREATE_INFO \<Rightarrow> XGL_RESULT \<times> intel_pipeline" where
  "pipeline_rs_state pipeline rs_state =
     (XGL_SUCCESS,
      pipeline\<lparr> pipe_depthClipEnable := depthClipEnable rs_state,
                 pipe_rasterizerDiscardEnable := rasterizerDiscardEnable rs_state,
                 pipe_pointSize := pointSize rs_state \<rparr>)"

section \<open>The build\<close>

definition pipeline_build_all ::
  "genhw \<Rightarrow> externs \<Rightarrow> intel_pipeline \<Rightarrow> intel_pipeline_create_info
     \<Rightarrow> (XGL_RESULT \<times> intel_pipeline) option" where
  "pipeline_build_all hw ext pipeline info =
     (case pipeline_build_shaders ext pipeline info of
        (ret, pipeline) \<Rightarrow>
          if ret \<noteq> XGL_SUCCESS then Some (ret, pipeline)
          else if length (pVertexBindingDescriptions (vi info)) > ARRAY_SIZE_vb hw \<or>
                  length (pVertexAttributeDescriptions (vi info)) > ARRAY_SIZE_vb hw
          then Some (XGL_ERROR_BAD_PIPELINE_DATA, pipeline)
          else do {
            pipeline \<leftarrow> Some (pipeline\<lparr> vb := pVertexBindingDescriptions (vi info) \<rparr>);
            pipeline \<leftarrow> pipeline_build_vertex_elements hw ext pipeline info;
            pipeline \<leftarrow>
              (if gen (gpu pipeline) \<ge> 700
               then do {
                 pipeline \<leftarrow> pipeline_build_urb_alloc_gen7 hw pipeline;
                 pipeline \<leftarrow> pipeline_build_push_const_alloc_gen7 hw pipeline;
                 pipeline \<leftarrow> pipeline_build_gs hw pipeline;
                 pipeline \<leftarrow> pipeline_build_hs hw pipeline;
                 pipeline \<leftarrow> pipeline_build_te hw pipeline;
                 pipeline \<leftarrow> pipeline_build_ds hw pipeline;
                 Some (pipeline\<lparr> wa_flags :=
                   [ INTEL_CMD_WA_GEN6_PRE_DEPTH_STALL_WRITE,
                     INTEL_CMD_WA_GEN6_PRE_COMMAND_SCOREBOARD_STALL,
                     INTEL_CMD_WA_GEN7_PRE_VS_DEPTH_STALL_WRITE,
                     INTEL_CMD_WA_GEN7_POST_COMMAND_CS_STALL,
                     INTEL_CMD_WA_GEN7_POST_COMMAND_DEPTH_STALL ] \<rparr>)
               }
               else do {
                 pipeline \<leftarrow> pipeline_build_urb_alloc_gen6 hw pipeline;
                 Some (pipeline\<lparr> wa_flags :=
                   [ INTEL_CMD_WA_GEN6_PRE_DEPTH_STALL_WRITE,
                     INTEL_CMD_WA_GEN6_PRE_COMMAND_SCOREBOARD_STALL ] \<rparr>)
               });
            (ret, pipeline) \<leftarrow> Some (pipeline_build_ia hw pipeline info);
            (ret, pipeline) \<leftarrow>
              Some (if ret = XGL_SUCCESS then pipeline_rs_state pipeline (rs info)
                    else (ret, pipeline));
            Some (ret,
                  if ret = XGL_SUCCESS
                  then pipeline\<lparr> db_format := db_info_format (db info),
                                  cb_state := cb info,
                                  tess_state := tess info \<rparr>
                  else pipeline)
          })"

section \<open>Assembling the create info: \<open>pipeline_create_info_init\<close>\<close>

text \<open>
  The descriptor after \<open>memset(info, 0, sizeof(*info))\<close>: empty arrays, zero counts,
  and for each enumeration its enumerator of value 0, which is the first one listed.
\<close>

definition zero_shader :: XGL_PIPELINE_SHADER where
  "zero_shader = \<lparr> stage = XGL_SHADER_STAGE_VERTEX, shader = 0, linkConstBufferInfo = [] \<rparr>"

definition zero_info :: intel_pipeline_create_info where
  "zero_info =
     \<lparr> graphics = [],
       vi = \<lparr> pVertexBindingDescriptions = [], pVertexAttributeDescriptions = [] \<rparr>,
       ia = \<lparr> topology = XGL_TOPOLOGY_POINT_LIST, disableVertexReuse = False,
              provokingVertex = XGL_PROVOKING_VERTEX_FIRST, primitiveRestartEnable = False,
              primitiveRestartIndex = 0 \<rparr>,
       db = \<lparr> db_info_format = \<lparr> channelFormat = 0, numericFormat = 0 \<rparr> \<rparr>,
       cb = [],
       rs = \<lparr> depthClipEnable = False, rasterizerDiscardEnable = False, pointSize = [] \<rparr>,
       tess = \<lparr> patchControlPoints = 0, optimalTessFactor = [] \<rparr>,
       vs = zero_shader, tcs = zero_shader, tes = zero_shader, gs = zero_shader,
       fs = zero_shader,
       compute = [] \<rparr>"

text \<open>
  The \<open>while (header)\<close> loop: each node selects \<open>dst\<close> by its tag (and, for a shader
  stage, by \<open>shader->stage\<close>), then \<open>memcpy(dst, src, size)\<close> overwrites that slot. Either
  \<open>default:\<close> returns at once.
\<close>

fun create_info_walk ::
  "intel_pipeline_create_info \<Rightarrow> intel_pipeline_create_info_header list
     \<Rightarrow> XGL_RESULT + intel_pipeline_create_info" where
  "create_info_walk info [] = Inr info"
| "create_info_walk info (header # next) =
     (case header of
        XGL_STRUCTURE_TYPE_GRAPHICS_PIPELINE_CREATE_INFO src \<Rightarrow>
          create_info_walk (info\<lparr>graphics := src\<rparr>) next
      | XGL_STRUCTURE_TYPE_PIPELINE_VERTEX_INPUT_CREATE_INFO src \<Rightarrow>
          create_info_walk (info\<lparr>vi := src\<rparr>) next
      | XGL_STRUCTURE_TYPE_PIPELINE_IA_STATE_CREATE_INFO src \<Rightarrow>
          create_info_walk (info\<lparr>ia := src\<rparr>) next
      | XGL_STRUCTURE_TYPE_PIPELINE_DB_STATE_CREATE_INFO src \<Rightarrow>
          create_info_walk (info\<lparr>db := src\<rparr>) next
      | XGL_STRUCTURE_TYPE_PIPELINE_CB_STATE_CREATE_INFO src \<Rightarrow>
          create_info_walk (info\<lparr>cb := src\<rparr>) next
      | XGL_STRUCTURE_TYPE_PIPELINE_RS_STATE_CREATE_INFO src \<Rightarrow>
          create_info_walk (info\<lparr>rs := src\<rparr>) next
      | XGL_STRUCTURE_TYPE_PIPELINE_TESS_STATE_CREATE_INFO src \<Rightarrow>
          create_info_walk (info\<lparr>tess := src\<rparr>) next
      | XGL_STRUCTURE_TYPE_PIPELINE_SHADER_STAGE_CREATE_INFO src \<Rightarrow>
          (case stage src of
             XGL_SHADER_STAGE_VERTEX \<Rightarrow> create_info_walk (info\<lparr>vs := src\<rparr>) next
           | XGL_SHADER_STAGE_TESS_CONTROL \<Rightarrow> create_info_walk (info\<lparr>tcs := src\<rparr>) next
           | XGL_SHADER_STAGE_TESS_EVALUATION \<Rightarrow> create_info_walk (info\<lparr>tes := src\<rparr>) next
           | XGL_SHADER_STAGE_GEOMETRY \<Rightarrow> create_info_walk (info\<lparr>gs := src\<rparr>) next
           | XGL_SHADER_STAGE_FRAGMENT \<Rightarrow> create_info_walk (info\<lparr>fs := src\<rparr>) next
           | _ \<Rightarrow> Inl XGL_ERROR_BAD_PIPELINE_DATA)
      | XGL_STRUCTURE_TYPE_COMPUTE_PIPELINE_CREATE_INFO src \<Rightarrow>
          create_info_walk (info\<lparr>compute := src\<rparr>) next
      | XGL_STRUCTURE_TYPE_OTHER _ \<Rightarrow> Inl XGL_ERROR_BAD_PIPELINE_DATA)"

definition pipeline_create_info_init ::
  "intel_pipeline_create_info_header list \<Rightarrow> XGL_RESULT + intel_pipeline_create_info" where
  "pipeline_create_info_init header = create_info_walk zero_info header"

section \<open>\<open>graphics_pipeline_create\<close>\<close>

text \<open>
  What a call leaves behind: the returned code, the object stored through
  \<open>pipeline_ret\<close> (if any), and the object handed to \<open>pipeline_destroy\<close> (if any), in
  the state it had at that moment.
\<close>

record create_result =
  ret :: XGL_RESULT
  pipeline_ret :: "intel_pipeline option"
  destroyed :: "intel_pipeline option"

definition graphics_pipeline_create ::
  "genhw \<Rightarrow> externs \<Rightarrow> intel_gpu \<Rightarrow> intel_pipeline_create_info_header list
     \<Rightarrow> create_result option" where
  "graphics_pipeline_create hw ext dev_gpu info' =
     (case pipeline_create_info_init info' of
        Inl r \<Rightarrow> Some \<lparr> ret = r, pipeline_ret = None, destroyed = None \<rparr>
      | Inr info \<Rightarrow>
          (case intel_base_create ext of
             None \<Rightarrow>
               Some \<lparr> ret = XGL_ERROR_OUT_OF_MEMORY, pipeline_ret = None, destroyed = None \<rparr>
           | Some pipeline \<Rightarrow>
               do {
                 (r, pipeline) \<leftarrow> pipeline_build_all hw ext (pipeline\<lparr>gpu := dev_gpu\<rparr>) info;
                 r \<leftarrow> Some (if r = XGL_SUCCESS then pipeline_validate (flags hw) pipeline
                             else r);
                 if r \<noteq> XGL_SUCCESS
                 then Some \<lparr> ret = r, pipeline_ret = None, destroyed = Some pipeline \<rparr>
                 else Some \<lparr> ret = XGL_SUCCESS, pipeline_ret = Some pipeline,
                              destroyed = None \<rparr>
               }))"

section \<open>Fences (icd/intel/fence.c)\<close>

text \<open>
  \<open>submitted_bo\<close> is \<open>None\<close> for a NULL pointer. \<open>intel_bo_wait\<close> belongs to the
  winsys and is a parameter: the error code it returns for a buffer and a timeout.
\<close>

record intel_fence =
  submitted_bo :: "nat option"

definition intel_fence_wait ::
  "(nat \<Rightarrow> 64 word \<Rightarrow> int) \<Rightarrow> intel_fence \<Rightarrow> 64 word \<Rightarrow> XGL_RESULT" where
  "intel_fence_wait intel_bo_wait fence timeout_ns =
     (case submitted_bo fence of
        None \<Rightarrow> XGL_ERROR_UNAVAILABLE
      | Some bo \<Rightarrow>
          if intel_bo_wait bo timeout_ns \<noteq> 0 then XGL_NOT_READY else XGL_SUCCESS)"

text \<open>
  The \<open>int64_t ns\<close> of one loop iteration, as the 64-bit pattern that \<open>sint\<close> reads.
  \<open>INT64_MAX / 1000 / 1000 / 1000\<close> is computed on the signed value;
  \<open>timeout * 1000 * 1000 * 1000\<close> is unsigned 64-bit arithmetic.
\<close>

definition INT64_MAX :: int where
  "INT64_MAX = 2 ^ 63 - 1"

definition fence_timeout_ns :: "64 word \<Rightarrow> 64 word" where
  "fence_timeout_ns timeout =
     (if timeout \<le> word_of_int (INT64_MAX div 1000 div 1000 div 1000)
      then timeout * 1000 * 1000 * 1000
      else - 1)"

text \<open>
  The loop of \<open>intelWaitForFences\<close> from fence \<open>i\<close> on, with the current \<open>ret\<close>. The
  second component lists the calls of \<open>intel_fence_wait\<close> it made, in order, each with
  the fence and the \<open>ns\<close> it passed.
\<close>

fun wait_for_fences_loop ::
  "(nat \<Rightarrow> 64 word \<Rightarrow> int) \<Rightarrow> bool \<Rightarrow> 64 word \<Rightarrow> XGL_RESULT \<Rightarrow> intel_fence list
     \<Rightarrow> XGL_RESULT \<times> (intel_fence \<times> 64 word) list" where
  "wait_for_fences_loop intel_bo_wait waitAll timeout r0 [] = (r0, [])"
| "wait_for_fences_loop intel_bo_wait waitAll timeout r0 (fence # rest) =
     (let ns = fence_timeout_ns timeout;
          r = intel_fence_wait intel_bo_wait fence ns
      in if \<not> waitAll \<and> r = XGL_SUCCESS then (XGL_SUCCESS, [(fence, ns)])
         else
           let (res, calls) =
                 wait_for_fences_loop intel_bo_wait waitAll timeout
                   (if r \<noteq> XGL_SUCCESS then r else r0) rest
           in (res, (fence, ns) # calls))"

definition intelWaitForFences ::
  "(nat \<Rightarrow> 64 word \<Rightarrow> int) \<Rightarrow> intel_fence list \<Rightarrow> bool \<Rightarrow> 64 word
     \<Rightarrow> XGL_RESULT \<times> (intel_fence \<times> 64 word) list" where
  "intelWaitForFences intel_bo_wait pFences waitAll timeout =
     wait_for_fences_loop intel_bo_wait waitAll timeout XGL_SUCCESS pFences"

section \<open>Sample inputs\<close>

text \<open>
  Concrete values on which the theorems below are exercised: macro values in the layout
  of the Ivy Bridge command set, a zero-filled pipeline object of a GT2 part of the older
  generation, and simple stand-ins for the external functions.
\<close>

definition hw_example :: genhw where
  "hw_example =
     \<lparr> render_cmd =
         \<lparr> CMD_3DSTATE_URB = 0x78050000, CMD_3DSTATE_VERTEX_ELEMENTS = 0x78090000,
           CMD_3DSTATE_URB_VS = 0x78300000, CMD_3DSTATE_URB_GS = 0x78330000,
           CMD_3DSTATE_URB_HS = 0x78310000, CMD_3DSTATE_URB_DS = 0x78320000,
           CMD_3DSTATE_PUSH_CONSTANT_ALLOC_VS = 0x79120000,
           CMD_3DSTATE_PUSH_CONSTANT_ALLOC_PS = 0x79160000,
           CMD_3DSTATE_PUSH_CONSTANT_ALLOC_HS = 0x79130000,
           CMD_3DSTATE_PUSH_CONSTANT_ALLOC_DS = 0x79140000,
           CMD_3DSTATE_PUSH_CONSTANT_ALLOC_GS = 0x79150000,
           CMD_3DSTATE_HS = 0x781b0000, CMD_3DSTATE_TE = 0x781c0000,
           CMD_3DSTATE_DS = 0x781d0000 \<rparr>,
       urb =
         \<lparr> GEN6_URB_DW1_VS_ENTRY_SIZE__SHIFT = 16, GEN6_URB_DW1_VS_ENTRY_COUNT__SHIFT = 0,
           GEN6_URB_DW2_GS_ENTRY_COUNT__SHIFT = 8, GEN6_URB_DW2_GS_ENTRY_SIZE__SHIFT = 0,
           GEN7_URB_ANY_DW1_OFFSET__SHIFT = 25, GEN7_URB_ANY_DW1_ENTRY_SIZE__SHIFT = 16,
           GEN7_PCB_ALLOC_ANY_DW1_OFFSET__SHIFT = 16, GEN7_PCB_ALLOC_ANY_DW1_SIZE__SHIFT = 0 \<rparr>,
       ve =
         \<lparr> GEN6_VE_STATE_DW0_VB_INDEX__SHIFT = 26, GEN6_VE_STATE_DW0_VALID = 0x2000000,
           GEN6_VE_STATE_DW0_FORMAT__SHIFT = 16, GEN6_VE_STATE_DW1_COMP0__SHIFT = 28,
           GEN6_VE_STATE_DW1_COMP1__SHIFT = 24, GEN6_VE_STATE_DW1_COMP2__SHIFT = 20,
           GEN6_VE_STATE_DW1_COMP3__SHIFT = 16 \<rparr>,
       vfcomp =
         \<lparr> GEN6_VFCOMP_NOSTORE = 0, GEN6_VFCOMP_STORE_SRC = 1, GEN6_VFCOMP_STORE_0 = 2,
           GEN6_VFCOMP_STORE_1_FP = 3, GEN6_VFCOMP_STORE_1_INT = 4,
           GEN6_VFCOMP_STORE_VID = 5, GEN6_VFCOMP_STORE_IID = 6 \<rparr>,
       prim =
         \<lparr> GEN6_3DPRIM_POINTLIST = 1, GEN6_3DPRIM_LINELIST = 2, GEN6_3DPRIM_LINESTRIP = 3,
           GEN6_3DPRIM_TRILIST = 4, GEN6_3DPRIM_TRISTRIP = 5, GEN6_3DPRIM_RECTLIST = 15,
           GEN6_3DPRIM_QUADLIST = 7, GEN6_3DPRIM_QUADSTRIP = 8, GEN6_3DPRIM_LINELIST_ADJ = 9,
           GEN6_3DPRIM_LINESTRIP_ADJ = 10, GEN6_3DPRIM_TRILIST_ADJ = 11,
           GEN6_3DPRIM_TRISTRIP_ADJ = 12, GEN7_3DPRIM_PATCHLIST_1 = 32 \<rparr>,
       flags = stage_bits,
       INTEL_SHADER_USE_VID = 1, INTEL_SHADER_USE_IID = 2,
       INTEL_PSO_CMD_ENTRIES = 128, ARRAY_SIZE_vb = 33 \<rparr>"

definition pipeline_example :: intel_pipeline where
  "pipeline_example =
     \<lparr> gpu = \<lparr> gen = 600, gt = 2 \<rparr>, active_shaders = 0,
       pipe_vs = \<lparr> in_count = 0, out_count = 0, uses = 0 \<rparr>,
       pipe_gs = \<lparr> in_count = 0, out_count = 0, uses = 0 \<rparr>,
       pipe_topology = XGL_TOPOLOGY_POINT_LIST, prim_type = 0, disable_vs_cache = False,
       provoking_vertex_tri = 0, provoking_vertex_trifan = 0, provoking_vertex_line = 0,
       primitive_restart = False, primitive_restart_index = 0,
       pipe_depthClipEnable = False, pipe_rasterizerDiscardEnable = False,
       pipe_pointSize = [], vb = [], wa_flags = [],
       db_format = \<lparr> channelFormat = 0, numericFormat = 0 \<rparr>, cb_state = [],
       tess_state = \<lparr> patchControlPoints = 0, optimalTessFactor = [] \<rparr>,
       cmds = replicate 128 0, cmd_len = 0 \<rparr>"

definition ext_example :: externs where
  "ext_example =
     \<lparr> intel_format_translate_color = (\<lambda>g f. int (channelFormat f)),
       icd_format_is_int = (\<lambda>f. numericFormat f = 1),
       icd_format_get_channel_count = (\<lambda>f. channelFormat f),
       pipeline_build_shaders =
         (\<lambda>p info. (XGL_SUCCESS,
            p\<lparr> active_shaders := 17,
               pipe_vs := \<lparr> in_count = 0, out_count = 4, uses = 0 \<rparr> \<rparr>)),
       intel_base_create = Some pipeline_example \<rparr>"

text \<open>A stage counts as active in a bit-set when its flag meets the set.\<close>

definition stage_active :: "32 word \<Rightarrow> 32 word \<Rightarrow> bool" where
  "stage_active a flag = (a AND flag \<noteq> 0)"

section \<open>Vocabulary for the assembled descriptor\<close>

text \<open>
  The slots of \<open>intel_pipeline_create_info\<close>, the slot a node of the chain selects
  (\<open>None\<close> for a node that ends in one of the two \<open>default:\<close> branches), what the
  \<open>memcpy\<close> of a node does to the descriptor, and the statement that a slot holds the
  payload of a given node.
\<close>

datatype info_slot =
    SLOT_graphics | SLOT_vi | SLOT_ia | SLOT_db | SLOT_cb | SLOT_rs | SLOT_tess
  | SLOT_vs | SLOT_tcs | SLOT_tes | SLOT_gs | SLOT_fs | SLOT_compute

fun dst_of :: "intel_pipeline_create_info_header \<Rightarrow> info_slot option" where
  "dst_of (XGL_STRUCTURE_TYPE_GRAPHICS_PIPELINE_CREATE_INFO _) = Some SLOT_graphics"
| "dst_of (XGL_STRUCTURE_TYPE_PIPELINE_VERTEX_INPUT_CREATE_INFO _) = Some SLOT_vi"
| "dst_of (XGL_STRUCTURE_TYPE_PIPELINE_IA_STATE_CREATE_INFO _) = Some SLOT_ia"
| "dst_of (XGL_STRUCTURE_TYPE_PIPELINE_DB_STATE_CREATE_INFO _) = Some SLOT_db"
| "dst_of (XGL_STRUCTURE_TYPE_PIPELINE_CB_STATE_CREATE_INFO _) = Some SLOT_cb"
| "dst_of (XGL_STRUCTURE_TYPE_PIPELINE_RS_STATE_CREATE_INFO _) = Some SLOT_rs"
| "dst_of (XGL_STRUCTURE_TYPE_PIPELINE_TESS_STATE_CREATE_INFO _) = Some SLOT_tess"
| "dst_of (XGL_STRUCTURE_TYPE_PIPELINE_SHADER_STAGE_CREATE_INFO src) =
     (case stage src of
        XGL_SHADER_STAGE_VERTEX \<Rightarrow> Some SLOT_vs
      | XGL_SHADER_STAGE_TESS_CONTROL \<Rightarrow> Some SLOT_tcs
      | XGL_SHADER_STAGE_TESS_EVALUATION \<Rightarrow> Some SLOT_tes
      | XGL_SHADER_STAGE_GEOMETRY \<Rightarrow> Some SLOT_gs
      | XGL_SHADER_STAGE_FRAGMENT \<Rightarrow> Some SLOT_fs
      | _ \<Rightarrow> None)"
| "dst_of (XGL_STRUCTURE_TYPE_COMPUTE_PIPELINE_CREATE_INFO _) = Some SLOT_compute"
| "dst_of (XGL_STRUCTURE_TYPE_OTHER _) = None"

fun slot_holds :: "intel_pipeline_create_info \<Rightarrow> intel_pipeline_create_info_header \<Rightarrow> bool" where
  "slot_holds info (XGL_STRUCTURE_TYPE_GRAPHICS_PIPELINE_CREATE_INFO src) = (graphics info = src)"
| "slot_holds info (XGL_STRUCTURE_TYPE_PIPELINE_VERTEX_INPUT_CREATE_INFO src) = (vi info = src)"
| "slot_holds info (XGL_STRUCTURE_TYPE_PIPELINE_IA_STATE_CREATE_INFO src) = (ia info = src)"
| "slot_holds info (XGL_STRUCTURE_TYPE_PIPELINE_DB_STATE_CREATE_INFO src) = (db info = src)"
| "slot_holds info (XGL_STRUCTURE_TYPE_PIPELINE_CB_STATE_CREATE_INFO src) = (cb info = src)"
| "slot_holds info (XGL_STRUCTURE_TYPE_PIPELINE_RS_STATE_CREATE_INFO src) = (rs info = src)"
| "slot_holds info (XGL_STRUCTURE_TYPE_PIPELINE_TESS_STATE_CREATE_INFO src) = (tess info = src)"
| "slot_holds info (XGL_STRUCTURE_TYPE_PIPELINE_SHADER_STAGE_CREATE_INFO src) =
     (case stage src of
        XGL_SHADER_STAGE_VERTEX \<Rightarrow> vs info = src
      | XGL_SHADER_STAGE_TESS_CONTROL \<Rightarrow> tcs info = src
      | XGL_SHADER_STAGE_TESS_EVALUATION \<Rightarrow> tes info = src
      | XGL_SHADER_STAGE_GEOMETRY \<Rightarrow> gs info = src
      | XGL_SHADER_STAGE_FRAGMENT \<Rightarrow> fs info = src
      | _ \<Rightarrow> False)"
| "slot_holds info (XGL_STRUCTURE_TYPE_COMPUTE_PIPELINE_CREATE_INFO src) = (compute info = src)"
| "slot_holds info (XGL_STRUCTURE_TYPE_OTHER _) = False"

fun copy_payload ::
  "intel_pipeline_create_info_header \<Rightarrow> intel_pipeline_create_info \<Rightarrow> intel_pipeline_create_info" where
  "copy_payload (XGL_STRUCTURE_TYPE_GRAPHICS_PIPELINE_CREATE_INFO src) info = info\<lparr>graphics := src\<rparr>"
| "copy_payload (XGL_STRUCTURE_TYPE_PIPELINE_VERTEX_INPUT_CREATE_INFO src) info = info\<lparr>vi := src\<rparr>"
| "copy_payload (XGL_STRUCTURE_TYPE_PIPELINE_IA_STATE_CREATE_INFO src) info = info\<lparr>ia := src\<rparr>"
| "copy_payload (XGL_STRUCTURE_TYPE_PIPELINE_DB_STATE_CREATE_INFO src) info = info\<lparr>db := src\<rparr>"
| "copy_payload (XGL_STRUCTURE_TYPE_PIPELINE_CB_STATE_CREATE_INFO src) info = info\<lparr>cb := src\<rparr>"
| "copy_payload (XGL_STRUCTURE_TYPE_PIPELINE_RS_STATE_CREATE_INFO src) info = info\<lparr>rs := src\<rparr>"
| "copy_payload (XGL_STRUCTURE_TYPE_PIPELINE_TESS_STATE_CREATE_INFO src) info = info\<lparr>tess := src\<rparr>"
| "copy_payload (XGL_STRUCTURE_TYPE_PIPELINE_SHADER_STAGE_CREATE_INFO src) info =
     (case stage src of
        XGL_SHADER_STAGE_VERTEX \<Rightarrow> info\<lparr>vs := src\<rparr>
      | XGL_SHADER_STAGE_TESS_CONTROL \<Rightarrow> info\<lparr>tcs := src\<rparr>
      | XGL_SHADER_STAGE_TESS_EVALUATION \<Rightarrow> info\<lparr>tes := src\<rparr>
      | XGL_SHADER_STAGE_GEOMETRY \<Rightarrow> info\<lparr>gs := src\<rparr>
      | XGL_SHADER_STAGE_FRAGMENT \<Rightarrow> info\<lparr>fs := src\<rparr>
      | _ \<Rightarrow> info)"
| "copy_payload (XGL_STRUCTURE_TYPE_COMPUTE_PIPELINE_CREATE_INFO src) info = info\<lparr>compute := src\<rparr>"
| "copy_payload (XGL_STRUCTURE_TYPE_OTHER _) info = info"

text \<open>
  The row count in the words of the specification: the entry size divided by the row
  granularity (both in bits), rounded up, with a zero result raised to 1.
\<close>

definition spec_row_count :: "int \<Rightarrow> int \<Rightarrow> int" where
  "spec_row_count row_bits entry_bits =
     (let rows = (entry_bits + row_bits - 1) div row_bits in if rows = 0 then 1 else rows)"

text \<open>
  A vertex and a fragment shader with 4 vertex outputs on the sample object; the same
  with a geometry shader in between; the first with 2 vertex inputs and outputs; and a
  newer-generation GT2 object whose vertex and geometry shaders both write 20 slots.
\<close>

definition pipeline_vs_fs :: intel_pipeline where
  "pipeline_vs_fs =
     pipeline_example\<lparr> active_shaders := 17,
                        pipe_vs := \<lparr> in_count = 0, out_count = 4, uses = 0 \<rparr> \<rparr>"

definition pipeline_vs_gs_fs :: intel_pipeline where
  "pipeline_vs_gs_fs =
     pipeline_example\<lparr> active_shaders := 25,
                        pipe_vs := \<lparr> in_count = 0, out_count = 4, uses = 0 \<rparr>,
                        pipe_gs := \<lparr> in_count = 4, out_count = 4, uses = 0 \<rparr> \<rparr>"

definition pipeline_two_slots :: intel_pipeline where
  "pipeline_two_slots =
     pipeline_example\<lparr> active_shaders := 17,
                        pipe_vs := \<lparr> in_count = 2, out_count = 2, uses = 0 \<rparr> \<rparr>"

definition pipeline_gen7_gs :: intel_pipeline where
  "pipeline_gen7_gs =
     pipeline_example\<lparr> gpu := \<lparr> gen = 700, gt = 2 \<rparr>, active_shaders := 25,
                        pipe_vs := \<lparr> in_count = 0, out_count = 20, uses = 0 \<rparr>,
                        pipe_gs := \<lparr> in_count = 0, out_count = 20, uses = 0 \<rparr> \<rparr>"

text \<open>
  Two declared attributes (three float channels, one integer channel) with a vertex
  shader that reads both the vertex and the instance index.
\<close>

definition info_two_attrs :: intel_pipeline_create_info where
  "info_two_attrs =
     zero_info\<lparr> vi :=
       \<lparr> pVertexBindingDescriptions = [],
         pVertexAttributeDescriptions =
           [ \<lparr> binding = 1, format = \<lparr> channelFormat = 3, numericFormat = 0 \<rparr>,
               offsetInBytes = 12 \<rparr>,
             \<lparr> binding = 0, format = \<lparr> channelFormat = 1, numericFormat = 1 \<rparr>,
               offsetInBytes = 0 \<rparr> ] \<rparr> \<rparr>"

definition pipeline_vid_iid :: intel_pipeline where
  "pipeline_vid_iid =
     pipeline_example\<lparr> pipe_vs := \<lparr> in_count = 2, out_count = 4, uses = 3 \<rparr> \<rparr>"

text \<open>
  The chain of the scenario: graphics-pipeline header, input assembly with
  triangle-list topology, vertex shader, fragment shader, vertex input with no bindings
  and no attributes; and a shader-stage node for the compute stage.
\<close>

definition scenario_chain :: "intel_pipeline_create_info_header list" where
  "scenario_chain =
     [ XGL_STRUCTURE_TYPE_GRAPHICS_PIPELINE_CREATE_INFO [],
       XGL_STRUCTURE_TYPE_PIPELINE_IA_STATE_CREATE_INFO
         ((ia zero_info)\<lparr> topology := XGL_TOPOLOGY_TRIANGLE_LIST \<rparr>),
       XGL_STRUCTURE_TYPE_PIPELINE_SHADER_STAGE_CREATE_INFO
         \<lparr> stage = XGL_SHADER_STAGE_VERTEX, shader = 1, linkConstBufferInfo = [] \<rparr>,
       XGL_STRUCTURE_TYPE_PIPELINE_SHADER_STAGE_CREATE_INFO
         \<lparr> stage = XGL_SHADER_STAGE_FRAGMENT, shader = 2, linkConstBufferInfo = [] \<rparr>,
       XGL_STRUCTURE_TYPE_PIPELINE_VERTEX_INPUT_CREATE_INFO
         \<lparr> pVertexBindingDescriptions = [], pVertexAttributeDescriptions = [] \<rparr> ]"

definition compute_shader_node :: intel_pipeline_create_info_header where
  "compute_shader_node =
     XGL_STRUCTURE_TYPE_PIPELINE_SHADER_STAGE_CREATE_INFO
       \<lparr> stage = XGL_SHADER_STAGE_COMPUTE, shader = 3, linkConstBufferInfo = [] \<rparr>"

text \<open>
  Slot counts large enough for the byte size to wrap: with \<open>2^28\<close> vertex outputs the
  size is 0; with \<open>2^28 - 16\<close> geometry outputs it is \<open>-256\<close>.
\<close>

definition pipeline_wrapped_vs :: intel_pipeline where
  "pipeline_wrapped_vs =
     pipeline_example\<lparr> active_shaders := 17,
                        pipe_vs := \<lparr> in_count = 0, out_count = 268435456, uses = 0 \<rparr> \<rparr>"

definition pipeline_wrapped_gs :: intel_pipeline where
  "pipeline_wrapped_gs =
     pipeline_example\<lparr> active_shaders := 17,
                        pipe_vs := \<lparr> in_count = 0, out_count = 4, uses = 0 \<rparr>,
                        pipe_gs := \<lparr> in_count = 0, out_count = 268435440, uses = 0 \<rparr> \<rparr>"

text \<open>An older-generation object whose vertex shader writes 20 slots: 320 bytes, 3 rows.\<close>

definition pipeline_vs_20 :: intel_pipeline where
  "pipeline_vs_20 =
     pipeline_example\<lparr> active_shaders := 17,
                        pipe_vs := \<lparr> in_count = 0, out_count = 20, uses = 0 \<rparr> \<rparr>"

section \<open>Theorems: stage and topology validation\<close>

lemma and_or_eq_0: "(a AND (x OR y) = 0) = (a AND x = 0 \<and> a AND y = 0)" for a :: "32 word"
  by (simp add: bit.conj_disj_distrib or_eq_0_iff)

text \<open>
  C1. \<open>pipeline_validate\<close> depends on the pipeline only through its active-stage
  bit-set and its topology, and it is the cascade of the five rules in the order given:
  (1) vertex stage absent; (2) exactly one of tessellation-control and
  tessellation-evaluation active; (3) compute active together with any of vertex,
  tessellation-control, tessellation-evaluation, geometry, fragment; (4) a tessellation
  stage active and the topology not patch-list; (5) topology patch-list and an active bit
  outside the two tessellation flags. The first rule that applies yields
  \<open>XGL_ERROR_BAD_PIPELINE_DATA\<close>; when none applies the result is \<open>XGL_SUCCESS\<close>.
\<close>

theorem validate_rules:
  "pipeline_validate fl p =
     (let a = active_shaders p;
          vertex = stage_active a (SHADER_VERTEX_FLAG fl);
          tess_control = stage_active a (SHADER_TESS_CONTROL_FLAG fl);
          tess_eval = stage_active a (SHADER_TESS_EVAL_FLAG fl);
          geometry = stage_active a (SHADER_GEOMETRY_FLAG fl);
          fragment = stage_active a (SHADER_FRAGMENT_FLAG fl);
          compute = stage_active a (SHADER_COMPUTE_FLAG fl)
      in if \<not> vertex then XGL_ERROR_BAD_PIPELINE_DATA
         else if tess_control \<noteq> tess_eval then XGL_ERROR_BAD_PIPELINE_DATA
         else if compute \<and> (vertex \<or> tess_control \<or> tess_eval \<or> geometry \<or> fragment)
           then XGL_ERROR_BAD_PIPELINE_DATA
         else if (tess_control \<or> tess_eval) \<and> pipe_topology p \<noteq> XGL_TOPOLOGY_PATCH
           then XGL_ERROR_BAD_PIPELINE_DATA
         else if pipe_topology p = XGL_TOPOLOGY_PATCH \<and>
                 a AND NOT (SHADER_TESS_CONTROL_FLAG fl OR SHADER_TESS_EVAL_FLAG fl) \<noteq> 0
           then XGL_ERROR_BAD_PIPELINE_DATA
         else XGL_SUCCESS)"
  unfolding pipeline_validate_def stage_active_def Let_def and_or_eq_0
  by auto

theorem validate_rules_witness:
  "pipeline_validate stage_bits
     (pipeline_example\<lparr>active_shaders := 17, pipe_topology := XGL_TOPOLOGY_TRIANGLE_LIST\<rparr>)
   = XGL_SUCCESS"
  using validate_rules [of stage_bits
     "pipeline_example\<lparr>active_shaders := 17, pipe_topology := XGL_TOPOLOGY_TRIANGLE_LIST\<rparr>"]
  by (simp add: stage_bits_def stage_active_def pipeline_example_def)

text \<open>
  C2, as stated, fails: the bit-set of exactly the two tessellation stages lies inside
  the two tessellation flags, and with patch-list topology it is rejected (the vertex
  stage is missing).
\<close>

theorem patch_subset_counterexample:
  "(6 :: 32 word) AND
     NOT (SHADER_TESS_CONTROL_FLAG stage_bits OR SHADER_TESS_EVAL_FLAG stage_bits) = 0 \<and>
   pipeline_validate stage_bits
     (pipeline_example\<lparr>active_shaders := 6, pipe_topology := XGL_TOPOLOGY_PATCH\<rparr>)
   = XGL_ERROR_BAD_PIPELINE_DATA"
  by (simp add: stage_bits_def pipeline_validate_def pipeline_example_def)

text \<open>
  C2, amended. With patch-list topology the validator rejects every pipeline whose
  active-stage set is not contained in the two tessellation stages, and it also rejects
  every pipeline without the vertex stage: containment in the two tessellation stages is
  necessary for acceptance, not sufficient.
\<close>

theorem patch_rejects:
  "pipe_topology p = XGL_TOPOLOGY_PATCH \<Longrightarrow>
   active_shaders p AND NOT (SHADER_TESS_CONTROL_FLAG fl OR SHADER_TESS_EVAL_FLAG fl) \<noteq> 0 \<or>
   active_shaders p AND SHADER_VERTEX_FLAG fl = 0 \<Longrightarrow>
   pipeline_validate fl p = XGL_ERROR_BAD_PIPELINE_DATA"
  unfolding pipeline_validate_def by auto

theorem patch_rejects_witness:
  "pipeline_validate stage_bits
     (pipeline_example\<lparr>active_shaders := 17, pipe_topology := XGL_TOPOLOGY_PATCH\<rparr>)
   = XGL_ERROR_BAD_PIPELINE_DATA"
  using patch_rejects [of "pipeline_example\<lparr>active_shaders := 17,
     pipe_topology := XGL_TOPOLOGY_PATCH\<rparr>" stage_bits]
  by (simp add: stage_bits_def pipeline_example_def)

text \<open>
  A consequence of rules (1) and (5) together: when the vertex flag shares no bit with
  the two tessellation flags, no pipeline with patch-list topology passes the validator.
\<close>

lemma disjoint_absent:
  "v AND m = 0 \<Longrightarrow> a AND NOT m = 0 \<Longrightarrow> a AND v = 0" for a v m :: "32 word"
proof (rule bit_eqI)
  fix n
  assume 1: "v AND m = 0" and 2: "a AND NOT m = 0"
  from 1 have "\<not> bit (v AND m) n" by simp
  moreover from 2 have "\<not> bit (a AND NOT m) n" by simp
  ultimately show "bit (a AND v) n = bit (0 :: 32 word) n"
    by (auto simp: bit_and_iff bit_not_iff dest: bit_imp_possible_bit)
qed

lemma patch_list_never_validates:
  assumes "SHADER_VERTEX_FLAG fl AND
             (SHADER_TESS_CONTROL_FLAG fl OR SHADER_TESS_EVAL_FLAG fl) = 0"
    and "pipe_topology p = XGL_TOPOLOGY_PATCH"
  shows "pipeline_validate fl p = XGL_ERROR_BAD_PIPELINE_DATA"
proof (cases "active_shaders p AND
    NOT (SHADER_TESS_CONTROL_FLAG fl OR SHADER_TESS_EVAL_FLAG fl) = 0")
  case True
  from disjoint_absent [OF assms(1) True]
  show ?thesis by (simp add: pipeline_validate_def)
next
  case False
  then show ?thesis
    using assms(2) unfolding pipeline_validate_def by auto
qed

section \<open>Theorems: the command buffer\<close>

text \<open>
  C3, as stated, fails at the boundary: a reservation that fills the buffer exactly
  (length 125, three more words, capacity 128) is refused.
\<close>

theorem cmd_ptr_counterexample:
  "cmd_len (pipeline_example\<lparr>cmd_len := 125\<rparr>) + 3 \<le> (128::nat) \<and>
   pipeline_cmd_ptr 128 (pipeline_example\<lparr>cmd_len := 125\<rparr>) 3 = None"
  by (simp add: pipeline_cmd_ptr_def)

text \<open>
  C3, amended. For every current length \<open>L\<close> and word count \<open>n\<close> the reservation
  succeeds exactly when \<open>L + n\<close> is strictly below the capacity; it then returns the
  window starting at index \<open>L\<close> and the new length is \<open>L + n\<close>, still below the
  capacity; nothing else changes. Every reservation with \<open>L + n\<close> equal to or above
  the capacity aborts.
\<close>

theorem cmd_ptr_reserve:
  "(pipeline_cmd_ptr entries p n \<noteq> None) = (cmd_len p + n < entries) \<and>
   (pipeline_cmd_ptr entries p n = None) = (cmd_len p + n \<ge> entries) \<and>
   (case pipeline_cmd_ptr entries p n of
      None \<Rightarrow> True
    | Some (dw, p') \<Rightarrow>
        dw = cmd_len p \<and> p' = p\<lparr>cmd_len := cmd_len p + n\<rparr> \<and> cmd_len p' < entries)"
  by (simp add: pipeline_cmd_ptr_def)

section \<open>Theorems: fence timeouts\<close>

lemma timeout_bound: "INT64_MAX div 1000 div 1000 div 1000 = 9223372036"
  by (simp add: INT64_MAX_def)

lemma fence_timeout_ns_sint:
  "sint (fence_timeout_ns t) =
     (if uint t \<le> INT64_MAX div 10 ^ 9 then uint t * 10 ^ 9 else - 1)"
proof (cases "uint t \<le> 9223372036")
  case True
  have le: "t \<le> word_of_int 9223372036"
    using True by (simp add: word_le_def)
  have "uint (t * 1000 * 1000 * 1000) = uint t * 1000000000 mod 2 ^ 64"
    by (simp add: uint_word_ariths mod_simps mult.commute)
  moreover have "0 \<le> uint t * 1000000000" "uint t * 1000000000 < 2 ^ 63"
    using True by simp_all
  ultimately have u: "uint (t * 1000 * 1000 * 1000) = uint t * 1000000000"
    by simp
  have "sint (t * 1000 * 1000 * 1000) = signed_take_bit 63 (uint t * 1000000000)"
    by (simp only: sint_uint u) simp
  also have "\<dots> = uint t * 1000000000"
  proof (rule signed_take_bit_int_eq_self)
    have "- (2 ^ 63) \<le> (0::int)" by simp
    then show "- (2 ^ 63) \<le> uint t * 1000000000"
      using \<open>0 \<le> uint t * 1000000000\<close> by (rule order_trans)
    show "uint t * 1000000000 < 2 ^ 63" by fact
  qed
  finally show ?thesis
    using True le by (simp add: fence_timeout_ns_def INT64_MAX_def)
next
  case False
  then have "\<not> t \<le> word_of_int 9223372036"
    by (simp add: word_le_def)
  then show ?thesis
    using False by (simp add: fence_timeout_ns_def INT64_MAX_def)
qed

lemma loop_calls_ns:
  "(fence, ns) \<in> set (snd (wait_for_fences_loop w waitAll t r0 fences)) \<Longrightarrow> ns = fence_timeout_ns t"
  by (induction fences arbitrary: r0) (auto simp: Let_def split_def split: if_splits)

lemma loop_calls_all:
  "waitAll \<Longrightarrow> map fst (snd (wait_for_fences_loop w waitAll t r0 fences)) = fences"
  by (induction fences arbitrary: r0) (auto simp: Let_def split_def split: if_splits)

text \<open>
  C9. Every call of \<open>intel_fence_wait\<close> made by \<open>intelWaitForFences\<close> for a 64-bit
  unsigned timeout \<open>t\<close> passes, read as a signed 64-bit value, \<open>t * 10^9\<close> when
  \<open>t \<le> INT64_MAX div 10^9\<close> and \<open>-1\<close> for every larger \<open>t\<close>; the product is the
  exact one, so the conversion never leaves the signed 64-bit range.
\<close>

theorem wait_timeout_ns:
  "(fence, ns) \<in> set (snd (intelWaitForFences w fences waitAll t)) \<Longrightarrow>
   sint ns = (if uint t \<le> INT64_MAX div 10 ^ 9 then uint t * 10 ^ 9 else - 1) \<and>
   - (2 ^ 63) \<le> sint ns \<and> sint ns < 2 ^ 63"
  using loop_calls_ns [of fence ns w waitAll t XGL_SUCCESS fences] fence_timeout_ns_sint [of t]
    sint_ge [of ns] sint_lt [of ns]
  by (simp add: intelWaitForFences_def)

theorem wait_timeout_ns_witness:
  "sint (fence_timeout_ns 5) = 5000000000 \<and>
   snd (intelWaitForFences (\<lambda>bo ns. 0) [\<lparr>submitted_bo = Some 1\<rparr>] True 5)
     = [(\<lparr>submitted_bo = Some 1\<rparr>, fence_timeout_ns 5)]"
  using wait_timeout_ns [of "\<lparr>submitted_bo = Some 1\<rparr>" "fence_timeout_ns 5" "\<lambda>bo ns. 0"
      "[\<lparr>submitted_bo = Some 1\<rparr>]" True 5]
  by (simp add: intelWaitForFences_def INT64_MAX_def Let_def intel_fence_wait_def
      fence_timeout_ns_def)

section \<open>Theorems: assembling the descriptor\<close>

lemma walk_Cons:
  "create_info_walk info (h # next) =
     (if dst_of h = None then Inl XGL_ERROR_BAD_PIPELINE_DATA
      else create_info_walk (copy_payload h info) next)"
  by (cases h) (simp_all split: XGL_PIPELINE_SHADER_STAGE.splits)

lemma copy_payload_holds: "dst_of h \<noteq> None \<Longrightarrow> slot_holds (copy_payload h info) h"
  by (cases h) (simp_all split: XGL_PIPELINE_SHADER_STAGE.splits)

lemma copy_payload_other:
  "dst_of g \<noteq> dst_of h \<Longrightarrow> slot_holds (copy_payload g info) h = slot_holds info h"
  by (cases h; cases g; simp split: XGL_PIPELINE_SHADER_STAGE.splits)

lemma walk_keeps:
  "slot_holds info h \<Longrightarrow> \<forall>g \<in> set ys. dst_of g \<noteq> dst_of h \<Longrightarrow>
   create_info_walk info ys = Inr info' \<Longrightarrow> slot_holds info' h"
proof (induction ys arbitrary: info)
  case Nil
  then show ?case by simp
next
  case (Cons g ys)
  from Cons.prems(3) have rec: "create_info_walk (copy_payload g info) ys = Inr info'"
    by (auto simp add: walk_Cons simp del: create_info_walk.simps(2) split: if_splits)
  have "slot_holds (copy_payload g info) h"
    using Cons.prems(1,2) by (simp add: copy_payload_other)
  then show ?case
    using Cons.IH [OF _ _ rec] Cons.prems(2) by simp
qed

lemma walk_total:
  "\<forall>g \<in> set ys. dst_of g \<noteq> None \<Longrightarrow> \<exists>info'. create_info_walk info ys = Inr info'"
  by (induction ys arbitrary: info) (simp_all add: walk_Cons del: create_info_walk.simps(2))

lemma walk_fails:
  "\<exists>g \<in> set ys. dst_of g = None \<Longrightarrow> create_info_walk info ys = Inl XGL_ERROR_BAD_PIPELINE_DATA"
  by (induction ys arbitrary: info) (auto simp add: walk_Cons simp del: create_info_walk.simps(2))

lemma walk_append:
  "create_info_walk info (xs @ ys) =
     (case create_info_walk info xs of Inl e \<Rightarrow> Inl e | Inr i \<Rightarrow> create_info_walk i ys)"
  by (induction xs arbitrary: info) (simp_all add: walk_Cons del: create_info_walk.simps(2))

text \<open>
  C10, as stated, fails. A chain with two input-assembly fragments and a fragment of an
  unrecognised tag between them, and a chain of two shader-stage fragments with the same
  stage enumerator, the compute stage, are both refused: each fragment is looked at in
  turn and the first unrecognised one ends the assembly with an error.
\<close>

theorem init_duplicates_counterexample:
  "pipeline_create_info_init
     [ XGL_STRUCTURE_TYPE_PIPELINE_IA_STATE_CREATE_INFO (ia zero_info),
       XGL_STRUCTURE_TYPE_OTHER 999,
       XGL_STRUCTURE_TYPE_PIPELINE_IA_STATE_CREATE_INFO
         ((ia zero_info)\<lparr>topology := XGL_TOPOLOGY_TRIANGLE_LIST\<rparr>) ]
     = Inl XGL_ERROR_BAD_PIPELINE_DATA \<and>
   stage (zero_shader\<lparr>stage := XGL_SHADER_STAGE_COMPUTE, shader := 3\<rparr>) =
     stage (zero_shader\<lparr>stage := XGL_SHADER_STAGE_COMPUTE, shader := 4\<rparr>) \<and>
   pipeline_create_info_init
     [ XGL_STRUCTURE_TYPE_PIPELINE_SHADER_STAGE_CREATE_INFO
         (zero_shader\<lparr>stage := XGL_SHADER_STAGE_COMPUTE, shader := 3\<rparr>),
       XGL_STRUCTURE_TYPE_PIPELINE_SHADER_STAGE_CREATE_INFO
         (zero_shader\<lparr>stage := XGL_SHADER_STAGE_COMPUTE, shader := 4\<rparr>) ]
     = Inl XGL_ERROR_BAD_PIPELINE_DATA"
  by (simp add: pipeline_create_info_init_def zero_shader_def)

text \<open>
  C10, amended. A chain in which every fragment is recognised (a known tag and, for a
  shader-stage fragment, one of the five graphics stages) is assembled successfully
  whether or not several fragments select the same slot (same tag, or shader-stage
  fragments with the same stage enumerator), and each slot holds the payload of the last
  fragment of the chain that selects it: for any fragment \<open>h\<close> of the chain with no
  later fragment on the same slot, the resulting descriptor holds the payload of \<open>h\<close>,
  whatever earlier fragments wrote there.
\<close>

theorem init_last_wins:
  assumes "\<forall>g \<in> set (xs @ h # ys). dst_of g \<noteq> None"
    and "\<forall>g \<in> set ys. dst_of g \<noteq> dst_of h"
  shows "\<exists>info. pipeline_create_info_init (xs @ h # ys) = Inr info \<and> slot_holds info h"
proof -
  from assms(1) obtain i where i: "create_info_walk zero_info xs = Inr i"
    using walk_total [of xs zero_info] by auto
  from assms(1) have h: "dst_of h \<noteq> None" by simp
  from assms(1) obtain info where info: "create_info_walk (copy_payload h i) ys = Inr info"
    using walk_total [of ys "copy_payload h i"] by auto
  have "slot_holds info h"
    using walk_keeps [OF copy_payload_holds [OF h] assms(2) info] .
  moreover have "pipeline_create_info_init (xs @ h # ys) = Inr info"
    using i h info by (simp add: pipeline_create_info_init_def walk_append walk_Cons del: create_info_walk.simps(2))
  ultimately show ?thesis by blast
qed


theorem init_last_wins_witness:
  "pipeline_create_info_init
     [ XGL_STRUCTURE_TYPE_PIPELINE_IA_STATE_CREATE_INFO (ia zero_info),
       XGL_STRUCTURE_TYPE_PIPELINE_IA_STATE_CREATE_INFO
         ((ia zero_info)\<lparr>topology := XGL_TOPOLOGY_TRIANGLE_LIST\<rparr>) ]
   = Inr (zero_info\<lparr>ia := (ia zero_info)\<lparr>topology := XGL_TOPOLOGY_TRIANGLE_LIST\<rparr>\<rparr>)"
  using init_last_wins [of "[XGL_STRUCTURE_TYPE_PIPELINE_IA_STATE_CREATE_INFO (ia zero_info)]"
      "XGL_STRUCTURE_TYPE_PIPELINE_IA_STATE_CREATE_INFO
         ((ia zero_info)\<lparr>topology := XGL_TOPOLOGY_TRIANGLE_LIST\<rparr>)" "[]"]
  by (simp add: pipeline_create_info_init_def)

section \<open>Theorems: URB allocation\<close>

lemma and_not_mask_int: "(x::int) AND NOT (mask n) = push_bit n (drop_bit n x)"
  by (rule bit_eqI)
    (auto simp: bit_and_iff bit_not_iff bit_mask_iff bit_push_bit_iff bit_drop_bit_eq)

lemma and_not_3: "(x::int) AND NOT 3 = 4 * (x div 4)"
  using and_not_mask_int [of x 2]
  by (simp add: mask_eq_exp_minus_1 push_bit_eq_mult drop_bit_eq_div)

lemma sdiv_nonneg: "0 \<le> a \<Longrightarrow> 0 < b \<Longrightarrow> a sdiv b = a div b" for a b :: int
  by (simp add: signed_divide_int_def sgn_if)

lemma sdiv_by_negative: "0 \<le> a \<Longrightarrow> b < 0 \<Longrightarrow> a sdiv b \<le> 0" for a b :: int
  by (simp add: signed_divide_int_def sgn_if pos_imp_zdiv_nonneg_iff)

lemma int32_id: "- (2 ^ 31) \<le> k \<Longrightarrow> k < 2 ^ 31 \<Longrightarrow> int32 k = k"
  unfolding int32_def by (rule signed_take_bit_int_eq_self)

lemma int32_nonneg: "0 \<le> k \<Longrightarrow> k < 2 ^ 31 \<Longrightarrow> int32 k = k"
proof -
  assume k: "0 \<le> k" "k < 2 ^ 31"
  have "- (2 ^ 31) \<le> k"
    using k(1) by (rule order_trans [rotated]) simp
  then show ?thesis
    using k(2) by (rule int32_id)
qed

lemma urb_alloc_size_nonzero: "urb_alloc_size row e \<noteq> 0"
  by (simp add: urb_alloc_size_def Let_def)

text \<open>
  Where the sum does not overflow and the entry size is not negative, the allocation
  size is the plain rounded-up quotient.
\<close>

lemma urb_alloc_size_plain:
  assumes "0 \<le> e" and "e + row - 1 < 2 ^ 31" and "0 < row"
  shows "urb_alloc_size row e =
     (if (e + row - 1) div row = 0 then 1 else (e + row - 1) div row)"
proof -
  have "int32 (e + row - 1) = e + row - 1"
    using assms by (intro int32_nonneg) simp_all
  moreover have "(e + row - 1) sdiv row = (e + row - 1) div row"
    using assms by (intro sdiv_nonneg) simp_all
  ultimately show ?thesis
    by (simp add: urb_alloc_size_def Let_def)
qed

lemma entry_count_gen6_bounds:
  "a \<in> {1, 2, 3, 4, 5} \<Longrightarrow> s \<in> {65536, 32768} \<Longrightarrow>
   entry_count_gen6 s a mod 4 = 0 \<and> 24 \<le> entry_count_gen6 s a \<and> entry_count_gen6 s a \<le> 256"
  by (auto simp: entry_count_gen6_def Let_def and_not_3)

lemma entry_count_gen6_negative_rows:
  assumes "0 \<le> s" and "a < 0"
  shows "entry_count_gen6 s a \<le> 0"
proof -
  have "0 \<le> s sdiv 128"
    using assms(1) by (simp add: sdiv_nonneg)
  then have "s sdiv 128 sdiv a \<le> 0"
    using assms(2) by (rule sdiv_by_negative)
  then have "(s sdiv 128 sdiv a) AND NOT 3 \<le> 0"
    unfolding and_not_3 using div_nonpos_pos_le0 [of "s sdiv 128 sdiv a" 4] by simp
  then show ?thesis
    by (simp add: entry_count_gen6_def Let_def)
qed


lemma if_None2:
  "(if a then None else if b then None else Some x) = Some u \<Longrightarrow> \<not> a \<and> \<not> b \<and> u = x"
  by (simp split: if_splits)

lemma if_None3:
  "(if a then None else if b then None else if c then None else Some x) = Some u \<Longrightarrow>
   \<not> a \<and> \<not> b \<and> \<not> c \<and> u = x"
  by (simp split: if_splits)

lemma urb_alloc_gen6_Some:
  assumes "urb_alloc_gen6 fl p = Some u"
  shows "gen (gpu p) = 600"
    and "ua_urb_size u = (if gt (gpu p) = 2 then 64 else 32) * 1024"
    and "ua_urb_offset u = 0"
    and "(ua_vs_size u, ua_gs_size u) = urb_partition fl p (ua_urb_size u)"
    and "ua_vs_alloc_size u = urb_alloc_size 128 (fst (urb_entry_sizes p))"
    and "ua_gs_alloc_size u = urb_alloc_size 128 (snd (urb_entry_sizes p))"
    and "ua_vs_alloc_size u \<le> 5" and "ua_gs_alloc_size u \<le> 5"
    and "ua_vs_entry_count u = entry_count_gen6 (ua_vs_size u) (ua_vs_alloc_size u)"
    and "ua_gs_entry_count u = entry_count_gen6 (ua_gs_size u) (ua_gs_alloc_size u)"
    and "24 \<le> ua_vs_entry_count u"
  using assms [unfolded urb_alloc_gen6_def Let_def split_def, THEN if_None3]
  by (simp_all add: INTEL_GPU_ASSERT_def split del: if_split)

lemma urb_partition_gt2:
  "urb_partition fl p 65536 =
     (if active_shaders p AND SHADER_GEOMETRY_FLAG fl \<noteq> 0 then (32768, 32768) else (65536, 0))"
  by (simp add: urb_partition_def)

text \<open>
  On a GT2 part of the older generation an allocation that passes the assertions has
  between 1 and 5 vertex rows: a negative row count would pass \<open>vs_alloc_size <= 5\<close>
  but leaves no positive entry count.
\<close>

lemma urb_alloc_gen6_gt2:
  assumes "gt (gpu p) = 2" and "urb_alloc_gen6 fl p = Some u"
  shows "ua_urb_size u = 64 * 1024 \<and>
     (if active_shaders p AND SHADER_GEOMETRY_FLAG fl \<noteq> 0
      then ua_vs_size u = 32 * 1024 \<and> ua_gs_size u = 32 * 1024
      else ua_vs_size u = 64 * 1024 \<and> ua_gs_size u = 0) \<and>
     1 \<le> ua_vs_alloc_size u \<and> ua_vs_alloc_size u \<le> 5 \<and>
     ua_vs_entry_count u mod 4 = 0 \<and> 24 \<le> ua_vs_entry_count u \<and> ua_vs_entry_count u \<le> 256"
proof -
  note f = urb_alloc_gen6_Some [OF assms(2)]
  from f(2) assms(1) have sz: "ua_urb_size u = 65536" by simp
  from f(4) sz have part: "(ua_vs_size u, ua_gs_size u) = urb_partition fl p 65536" by simp
  then have s: "ua_vs_size u \<in> {65536, 32768}"
    by (auto simp: urb_partition_gt2 split: if_splits)
  have "\<not> ua_vs_alloc_size u < 0"
  proof
    assume "ua_vs_alloc_size u < 0"
    then have "entry_count_gen6 (ua_vs_size u) (ua_vs_alloc_size u) \<le> 0"
      using s by (intro entry_count_gen6_negative_rows) auto
    with f(9) f(11) show False by linarith
  qed
  moreover have "ua_vs_alloc_size u \<noteq> 0"
    unfolding f(5) by (rule urb_alloc_size_nonzero)
  ultimately have a: "ua_vs_alloc_size u \<in> {1, 2, 3, 4, 5}"
    using f(7) by auto
  have "entry_count_gen6 (ua_vs_size u) (ua_vs_alloc_size u) mod 4 = 0 \<and>
        24 \<le> entry_count_gen6 (ua_vs_size u) (ua_vs_alloc_size u) \<and>
        entry_count_gen6 (ua_vs_size u) (ua_vs_alloc_size u) \<le> 256"
    by (rule entry_count_gen6_bounds [OF a s])
  then have "ua_vs_entry_count u mod 4 = 0 \<and> 24 \<le> ua_vs_entry_count u \<and>
             ua_vs_entry_count u \<le> 256"
    by (simp only: f(9))
  moreover have "1 \<le> ua_vs_alloc_size u \<and> ua_vs_alloc_size u \<le> 5"
    using a by auto
  moreover have "if active_shaders p AND SHADER_GEOMETRY_FLAG fl \<noteq> 0
      then ua_vs_size u = 32 * 1024 \<and> ua_gs_size u = 32 * 1024
      else ua_vs_size u = 64 * 1024 \<and> ua_gs_size u = 0"
    using part by (simp add: urb_partition_gt2 split: if_splits)
  ultimately show ?thesis
    using sz by simp
qed

lemma slots_entry_size:
  fixes w :: "32 word"
  assumes "w \<le> 40"
  shows "int32 (sint w * (4 * 4)) = 16 * uint w \<and> uint w \<le> 40"
proof -
  have u: "uint w \<le> 40"
    using assms by (simp add: word_le_def)
  have "int32 (uint w) = uint w"
    using u by (intro int32_nonneg) simp_all
  then have "sint w = uint w"
    using sint_uint [of w] by (simp add: int32_def)
  moreover have "int32 (uint w * 16) = uint w * 16"
    using u by (intro int32_nonneg) simp_all
  ultimately show ?thesis
    using u by (simp add: mult.commute)
qed

lemma urb_entry_sizes_small:
  assumes "in_count (pipe_vs p) \<le> 40" and "out_count (pipe_vs p) \<le> 40"
    and "out_count (pipe_gs p) \<le> 40"
  shows "0 \<le> fst (urb_entry_sizes p) \<and> fst (urb_entry_sizes p) \<le> 640 \<and>
         0 \<le> snd (urb_entry_sizes p) \<and> snd (urb_entry_sizes p) \<le> 640"
  using slots_entry_size [OF assms(1)] slots_entry_size [OF assms(2)]
    slots_entry_size [OF assms(3)]
  by (simp add: urb_entry_sizes_def Let_def)

lemma urb_alloc_size_128_small:
  assumes "0 \<le> e" and "e \<le> 640"
  shows "urb_alloc_size 128 e \<in> {1, 2, 3, 4, 5}"
proof -
  have "urb_alloc_size 128 e =
      (if (e + 128 - 1) div 128 = 0 then 1 else (e + 128 - 1) div 128)"
    using assms by (intro urb_alloc_size_plain) simp_all
  then show ?thesis
    using assms by (auto split: if_splits)
qed

text \<open>
  With GT tier 2, the older generation and no slot count above 40, the allocation passes
  every assertion.
\<close>

lemma urb_alloc_gen6_small_slots:
  assumes "gt (gpu p) = 2" and "gen (gpu p) = 600"
    and "in_count (pipe_vs p) \<le> 40" and "out_count (pipe_vs p) \<le> 40"
    and "out_count (pipe_gs p) \<le> 40"
  shows "urb_alloc_gen6 fl p \<noteq> None"
proof -
  note e = urb_entry_sizes_small [OF assms(3,4,5)]
  have av: "urb_alloc_size 128 (fst (urb_entry_sizes p)) \<in> {1, 2, 3, 4, 5}"
    using e by (intro urb_alloc_size_128_small) simp_all
  have ag: "urb_alloc_size 128 (snd (urb_entry_sizes p)) \<in> {1, 2, 3, 4, 5}"
    using e by (intro urb_alloc_size_128_small) simp_all
  have s: "fst (urb_partition fl p 65536) \<in> {65536, 32768}"
    by (simp add: urb_partition_gt2)
  have "24 \<le> entry_count_gen6 (fst (urb_partition fl p 65536))
                 (urb_alloc_size 128 (fst (urb_entry_sizes p)))"
    using entry_count_gen6_bounds [OF av s] by simp
  moreover have "urb_alloc_size 128 (fst (urb_entry_sizes p)) \<le> 5"
    using av by auto
  moreover have "urb_alloc_size 128 (snd (urb_entry_sizes p)) \<le> 5"
    using ag by auto
  ultimately show ?thesis
    unfolding urb_alloc_gen6_def Let_def split_def INTEL_GPU_ASSERT_def
    using assms(1,2) by simp
qed

lemma build_urb_gen6_eq:
  "pipeline_build_urb_alloc_gen6 hw p =
     (case urb_alloc_gen6 (flags hw) p of
        None \<Rightarrow> None
      | Some u \<Rightarrow>
          if cmd_len p + 3 < INTEL_PSO_CMD_ENTRIES hw \<and> cmd_len p + 3 \<le> length (cmds p)
          then Some (p\<lparr> cmd_len := cmd_len p + 3,
                 cmds := take (cmd_len p) (cmds p) @
                   [ CMD_3DSTATE_URB (render_cmd hw) OR 1,
                     word_of_int
                       (push_bit (GEN6_URB_DW1_VS_ENTRY_SIZE__SHIFT (urb hw))
                          (ua_vs_alloc_size u - 1) OR
                        push_bit (GEN6_URB_DW1_VS_ENTRY_COUNT__SHIFT (urb hw))
                          (ua_vs_entry_count u)),
                     word_of_int
                       (push_bit (GEN6_URB_DW2_GS_ENTRY_COUNT__SHIFT (urb hw))
                          (ua_gs_entry_count u) OR
                        push_bit (GEN6_URB_DW2_GS_ENTRY_SIZE__SHIFT (urb hw))
                          (ua_gs_alloc_size u - 1)) ] @
                   drop (cmd_len p + 3) (cmds p) \<rparr>)
          else None)"
  unfolding pipeline_build_urb_alloc_gen6_def pipeline_cmd_ptr_def store_words_def
    urb_words_gen6_def Let_def
  by (cases "urb_alloc_gen6 (flags hw) p")
    (simp_all add: add.commute [of _ "cmd_len p"] eval_nat_numeral)

text \<open>
  C4. On a GT2 part the older-generation allocator emits its command whenever the
  generation is the older one, no slot count exceeds 40 and three words fit the buffer.
  Whenever it emits, for any slot counts, the total is 64 KiB, the vertex and geometry
  partitions are 32 KiB each when the geometry stage is active and 64 KiB and 0
  otherwise, and the vertex entry count, which the second emitted word carries in its
  entry-count field, is a multiple of 4 between 24 and 256.
\<close>

theorem urb_gen6_gt2:
  assumes "gt (gpu p) = 2"
  shows
    "(gen (gpu p) = 600 \<and> in_count (pipe_vs p) \<le> 40 \<and> out_count (pipe_vs p) \<le> 40 \<and>
      out_count (pipe_gs p) \<le> 40 \<and> cmd_len p + 3 < INTEL_PSO_CMD_ENTRIES hw \<and>
      cmd_len p + 3 \<le> length (cmds p)
        \<longrightarrow> pipeline_build_urb_alloc_gen6 hw p \<noteq> None) \<and>
     (\<forall>p'. pipeline_build_urb_alloc_gen6 hw p = Some p' \<longrightarrow>
        (\<exists>u. urb_alloc_gen6 (flags hw) p = Some u \<and>
           ua_urb_size u = 64 * 1024 \<and>
           (if active_shaders p AND SHADER_GEOMETRY_FLAG (flags hw) \<noteq> 0
            then ua_vs_size u = 32 * 1024 \<and> ua_gs_size u = 32 * 1024
            else ua_vs_size u = 64 * 1024 \<and> ua_gs_size u = 0) \<and>
           ua_vs_entry_count u mod 4 = 0 \<and> 24 \<le> ua_vs_entry_count u \<and>
           ua_vs_entry_count u \<le> 256 \<and>
           p' = p\<lparr> cmd_len := cmd_len p + 3,
                  cmds := take (cmd_len p) (cmds p) @
                    [ CMD_3DSTATE_URB (render_cmd hw) OR 1,
                      word_of_int
                        (push_bit (GEN6_URB_DW1_VS_ENTRY_SIZE__SHIFT (urb hw))
                           (ua_vs_alloc_size u - 1) OR
                         push_bit (GEN6_URB_DW1_VS_ENTRY_COUNT__SHIFT (urb hw))
                           (ua_vs_entry_count u)),
                      word_of_int
                        (push_bit (GEN6_URB_DW2_GS_ENTRY_COUNT__SHIFT (urb hw))
                           (ua_gs_entry_count u) OR
                         push_bit (GEN6_URB_DW2_GS_ENTRY_SIZE__SHIFT (urb hw))
                           (ua_gs_alloc_size u - 1)) ] @
                    drop (cmd_len p + 3) (cmds p) \<rparr>))"
proof (intro conjI impI allI)
  assume a: "gen (gpu p) = 600 \<and> in_count (pipe_vs p) \<le> 40 \<and> out_count (pipe_vs p) \<le> 40 \<and>
      out_count (pipe_gs p) \<le> 40 \<and> cmd_len p + 3 < INTEL_PSO_CMD_ENTRIES hw \<and>
      cmd_len p + 3 \<le> length (cmds p)"
  then have "urb_alloc_gen6 (flags hw) p \<noteq> None"
    using assms by (intro urb_alloc_gen6_small_slots) simp_all
  then show "pipeline_build_urb_alloc_gen6 hw p \<noteq> None"
    using a by (auto simp: build_urb_gen6_eq)
next
  fix p'
  assume b: "pipeline_build_urb_alloc_gen6 hw p = Some p'"
  then obtain u where u: "urb_alloc_gen6 (flags hw) p = Some u"
    by (cases "urb_alloc_gen6 (flags hw) p") (simp_all add: build_urb_gen6_eq)
  note facts = urb_alloc_gen6_gt2 [OF assms u]
  from b u have "p' = p\<lparr> cmd_len := cmd_len p + 3,
                  cmds := take (cmd_len p) (cmds p) @
                    [ CMD_3DSTATE_URB (render_cmd hw) OR 1,
                      word_of_int
                        (push_bit (GEN6_URB_DW1_VS_ENTRY_SIZE__SHIFT (urb hw))
                           (ua_vs_alloc_size u - 1) OR
                         push_bit (GEN6_URB_DW1_VS_ENTRY_COUNT__SHIFT (urb hw))
                           (ua_vs_entry_count u)),
                      word_of_int
                        (push_bit (GEN6_URB_DW2_GS_ENTRY_COUNT__SHIFT (urb hw))
                           (ua_gs_entry_count u) OR
                         push_bit (GEN6_URB_DW2_GS_ENTRY_SIZE__SHIFT (urb hw))
                           (ua_gs_alloc_size u - 1)) ] @
                    drop (cmd_len p + 3) (cmds p) \<rparr>"
    by (simp add: build_urb_gen6_eq split: if_splits)
  with u facts show "\<exists>u. urb_alloc_gen6 (flags hw) p = Some u \<and>
           ua_urb_size u = 64 * 1024 \<and>
           (if active_shaders p AND SHADER_GEOMETRY_FLAG (flags hw) \<noteq> 0
            then ua_vs_size u = 32 * 1024 \<and> ua_gs_size u = 32 * 1024
            else ua_vs_size u = 64 * 1024 \<and> ua_gs_size u = 0) \<and>
           ua_vs_entry_count u mod 4 = 0 \<and> 24 \<le> ua_vs_entry_count u \<and>
           ua_vs_entry_count u \<le> 256 \<and>
           p' = p\<lparr> cmd_len := cmd_len p + 3,
                  cmds := take (cmd_len p) (cmds p) @
                    [ CMD_3DSTATE_URB (render_cmd hw) OR 1,
                      word_of_int
                        (push_bit (GEN6_URB_DW1_VS_ENTRY_SIZE__SHIFT (urb hw))
                           (ua_vs_alloc_size u - 1) OR
                         push_bit (GEN6_URB_DW1_VS_ENTRY_COUNT__SHIFT (urb hw))
                           (ua_vs_entry_count u)),
                      word_of_int
                        (push_bit (GEN6_URB_DW2_GS_ENTRY_COUNT__SHIFT (urb hw))
                           (ua_gs_entry_count u) OR
                         push_bit (GEN6_URB_DW2_GS_ENTRY_SIZE__SHIFT (urb hw))
                           (ua_gs_alloc_size u - 1)) ] @
                    drop (cmd_len p + 3) (cmds p) \<rparr>"
    by (intro exI [of _ u]) simp
qed

lemma build_urb_example:
  "pipeline_build_urb_alloc_gen6 hw_example pipeline_vs_fs =
     Some (pipeline_vs_fs\<lparr> cmds := [0x78050001, 256, 0] @ replicate 125 0, cmd_len := 3 \<rparr>)"
  by code_simp

lemma build_urb_example_gs:
  "pipeline_build_urb_alloc_gen6 hw_example pipeline_vs_gs_fs =
     Some (pipeline_vs_gs_fs\<lparr> cmds := [0x78050001, 256, 0x10000] @ replicate 125 0,
                                cmd_len := 3 \<rparr>)"
  by code_simp

text \<open>
  Slot counts whose byte size wraps: \<open>2^28\<close> vertex outputs make an entry of 0 bytes
  and the command is emitted with 256 entries; \<open>2^28 - 16\<close> geometry outputs make an
  entry of \<open>-256\<close> bytes, a row count of \<open>-1\<close> that passes the assertion.
\<close>

lemma build_urb_wrapped:
  "pipeline_build_urb_alloc_gen6 hw_example pipeline_wrapped_vs =
     Some (pipeline_wrapped_vs\<lparr> cmds := [0x78050001, 256, 0] @ replicate 125 0,
                                  cmd_len := 3 \<rparr>)"
  "urb_entry_sizes pipeline_wrapped_gs = (64, - 256)"
  "map_option ua_gs_alloc_size (urb_alloc_gen6 stage_bits pipeline_wrapped_gs) = Some (- 1)"
  by code_simp+

theorem urb_gen6_gt2_witness:
  "pipeline_build_urb_alloc_gen6 hw_example pipeline_vs_fs =
     Some (pipeline_vs_fs\<lparr> cmds := [0x78050001, 256, 0] @ replicate 125 0, cmd_len := 3 \<rparr>) \<and>
   pipeline_build_urb_alloc_gen6 hw_example pipeline_vs_gs_fs =
     Some (pipeline_vs_gs_fs\<lparr> cmds := [0x78050001, 256, 0x10000] @ replicate 125 0,
                                cmd_len := 3 \<rparr>) \<and>
   (\<exists>u. urb_alloc_gen6 stage_bits pipeline_vs_gs_fs = Some u \<and>
        ua_urb_size u = 65536 \<and> ua_vs_size u = 32768 \<and> ua_gs_size u = 32768 \<and>
        ua_vs_entry_count u mod 4 = 0 \<and> 24 \<le> ua_vs_entry_count u \<and>
        ua_vs_entry_count u \<le> 256)"
proof -
  have gt2: "gt (gpu pipeline_vs_fs) = 2" "gt (gpu pipeline_vs_gs_fs) = 2"
    by code_simp+
  have small: "gen (gpu pipeline_vs_fs) = 600 \<and> in_count (pipe_vs pipeline_vs_fs) \<le> 40 \<and>
      out_count (pipe_vs pipeline_vs_fs) \<le> 40 \<and> out_count (pipe_gs pipeline_vs_fs) \<le> 40 \<and>
      cmd_len pipeline_vs_fs + 3 < INTEL_PSO_CMD_ENTRIES hw_example \<and>
      cmd_len pipeline_vs_fs + 3 \<le> length (cmds pipeline_vs_fs)"
    by code_simp
  have fl: "flags hw_example = stage_bits"
    by (simp add: hw_example_def)
  have with_gs: "active_shaders pipeline_vs_gs_fs AND SHADER_GEOMETRY_FLAG stage_bits = 8"
    by code_simp
  from urb_gen6_gt2 [OF gt2(1), of hw_example] small
  have emitted: "pipeline_build_urb_alloc_gen6 hw_example pipeline_vs_fs \<noteq> None"
    by blast
  from urb_gen6_gt2 [OF gt2(2), of hw_example] build_urb_example_gs
  have "\<exists>u. urb_alloc_gen6 stage_bits pipeline_vs_gs_fs = Some u \<and>
        ua_urb_size u = 65536 \<and> ua_vs_size u = 32768 \<and> ua_gs_size u = 32768 \<and>
        ua_vs_entry_count u mod 4 = 0 \<and> 24 \<le> ua_vs_entry_count u \<and>
        ua_vs_entry_count u \<le> 256"
    unfolding fl by (auto simp: with_gs)
  with emitted build_urb_example build_urb_example_gs show ?thesis
    by simp
qed

lemma bits_of_bytes_rows:
  "spec_row_count 1024 (8 * e) =
     (if (e + 128 - 1) div 128 = 0 then 1 else (e + 128 - 1) div 128)"
  "spec_row_count 512 (8 * e) =
     (if (e + 64 - 1) div 64 = 0 then 1 else (e + 64 - 1) div 64)"
proof -
  have c: "(8 * x + 7) div (8 * k) = x div k" if "0 \<le> k" for x k :: int
  proof -
    have "(8 * x + 7) div 8 = x" by presburger
    then show ?thesis
      using zdiv_zmult2_eq [of k "8 * x + 7" 8] that by simp
  qed
  have a: "(8 * e + 1024 - 1) div 1024 = (e + 128 - 1) div 128"
    using c [of 128 "e + 127"] by simp
  have b: "(8 * e + 512 - 1) div 512 = (e + 64 - 1) div 64"
    using c [of 64 "e + 63"] by simp
  show "spec_row_count 1024 (8 * e) =
     (if (e + 128 - 1) div 128 = 0 then 1 else (e + 128 - 1) div 128)"
    unfolding spec_row_count_def a Let_def ..
  show "spec_row_count 512 (8 * e) =
     (if (e + 64 - 1) div 64 = 0 then 1 else (e + 64 - 1) div 64)"
    unfolding spec_row_count_def b Let_def ..
qed

text \<open>\<open>spec_row_count\<close> is division rounded up, with a floor of one row.\<close>

lemma spec_row_count_rounds_up:
  assumes "0 < b" and "0 < e"
  shows "b * (spec_row_count b e - 1) < e \<and> e \<le> b * spec_row_count b e"
proof -
  define r where "r = (e + b - 1) div b"
  define m where "m = (e + b - 1) mod b"
  have eq: "e + b - 1 = b * r + m"
    by (simp add: r_def m_def)
  have m: "0 \<le> m" "m < b"
    using assms by (simp_all add: m_def)
  have "0 < b * r"
    using eq m assms by linarith
  then have "r \<noteq> 0" by auto
  then have s: "spec_row_count b e = r"
    by (simp add: spec_row_count_def Let_def r_def)
  have "b * (r - 1) = b * r - b"
    by (simp add: algebra_simps)
  then show ?thesis
    unfolding s using eq m by linarith
qed

text \<open>
  For an entry size that the \<open>int\<close> holds as a non-negative value, with room for the
  rounding term, the allocation size of the code is the row count over rows of 1024 bits
  (older generation) and of 512 bits (newer generation).
\<close>

lemma urb_alloc_size_rows:
  "0 \<le> e \<Longrightarrow> e \<le> 2 ^ 31 - 128 \<Longrightarrow> urb_alloc_size 128 e = spec_row_count 1024 (8 * e)"
  "0 \<le> e \<Longrightarrow> e \<le> 2 ^ 31 - 64 \<Longrightarrow> urb_alloc_size 64 e = spec_row_count 512 (8 * e)"
  by (simp_all add: urb_alloc_size_plain bits_of_bytes_rows)

lemma spec_row_count_pos:
  assumes "0 \<le> e"
  shows "1 \<le> spec_row_count 1024 (8 * e)"
proof -
  have "0 \<le> (e + 128 - 1) div 128"
    using assms by (simp add: pos_imp_zdiv_nonneg_iff)
  then have "(e + 128 - 1) div 128 \<noteq> 0 \<Longrightarrow> 1 \<le> (e + 128 - 1) div 128"
    by linarith
  then show ?thesis
    unfolding bits_of_bytes_rows(1) by (cases "(e + 128 - 1) div 128 = 0") simp_all
qed

text \<open>
  Slot counts up to \<open>134217720\<close> give entry sizes in that range: 16 bytes per slot,
  nothing wraps.
\<close>

lemma slots_entry_size_plain:
  fixes w :: "32 word"
  assumes "w \<le> 134217720"
  shows "int32 (sint w * (4 * 4)) = 16 * uint w \<and> 16 * uint w \<le> 2 ^ 31 - 128"
proof -
  have u: "uint w \<le> 134217720"
    using assms by (simp add: word_le_def)
  have "int32 (uint w) = uint w"
    using u by (intro int32_nonneg) simp_all
  then have "sint w = uint w"
    using sint_uint [of w] by (simp add: int32_def)
  moreover have "int32 (uint w * 16) = uint w * 16"
    using u by (intro int32_nonneg) simp_all
  ultimately show ?thesis
    using u by (simp add: mult.commute)
qed

lemma urb_entry_sizes_plain:
  assumes "in_count (pipe_vs p) \<le> 134217720" and "out_count (pipe_vs p) \<le> 134217720"
    and "out_count (pipe_gs p) \<le> 134217720"
  shows "urb_entry_sizes p =
     (16 * uint (if in_count (pipe_vs p) \<ge> out_count (pipe_vs p)
                 then in_count (pipe_vs p) else out_count (pipe_vs p)),
      16 * uint (out_count (pipe_gs p)))"
    and "0 \<le> fst (urb_entry_sizes p)" and "fst (urb_entry_sizes p) \<le> 2 ^ 31 - 128"
    and "0 \<le> snd (urb_entry_sizes p)" and "snd (urb_entry_sizes p) \<le> 2 ^ 31 - 128"
proof -
  define w where "w = (if in_count (pipe_vs p) \<ge> out_count (pipe_vs p)
                 then in_count (pipe_vs p) else out_count (pipe_vs p))"
  have "w \<le> 134217720"
    using assms(1,2) by (simp add: w_def)
  note a = slots_entry_size_plain [OF this] slots_entry_size_plain [OF assms(3)]
  have e: "urb_entry_sizes p =
      (int32 (sint w * (4 * 4)), int32 (sint (out_count (pipe_gs p)) * (4 * 4)))"
    unfolding urb_entry_sizes_def Let_def w_def by (simp only: if_distrib [of sint])
  show "urb_entry_sizes p =
     (16 * uint (if in_count (pipe_vs p) \<ge> out_count (pipe_vs p)
                 then in_count (pipe_vs p) else out_count (pipe_vs p)),
      16 * uint (out_count (pipe_gs p)))"
    unfolding e using a by (simp only: w_def)
  show "0 \<le> fst (urb_entry_sizes p)" "fst (urb_entry_sizes p) \<le> 2 ^ 31 - 128"
    "0 \<le> snd (urb_entry_sizes p)" "snd (urb_entry_sizes p) \<le> 2 ^ 31 - 128"
    unfolding e fst_conv snd_conv using a by (simp_all only: uint_ge_0 mult_nonneg_nonneg zero_le_numeral)
qed

lemma urb_alloc_gen7_Some:
  assumes "urb_alloc_gen7 fl p = Some u"
  shows "ua_vs_alloc_size u =
     (if urb_alloc_size 64 (fst (urb_entry_sizes p)) = 5 then 6
      else urb_alloc_size 64 (fst (urb_entry_sizes p)))"
    and "ua_gs_alloc_size u = urb_alloc_size 64 (snd (urb_entry_sizes p))"
  using assms [unfolded urb_alloc_gen7_def Let_def split_def, THEN if_None2]
  by (simp_all split del: if_split)

lemma urb_alloc_gen6_vs_rows:
  assumes "urb_alloc_gen6 fl p = Some u"
  shows "1 \<le> ua_vs_alloc_size u"
proof -
  note f = urb_alloc_gen6_Some [OF assms]
  have "0 \<le> ua_vs_size u"
    using f(2,4) by (auto simp: urb_partition_def split: if_splits)
  then have "\<not> ua_vs_alloc_size u < 0"
    using entry_count_gen6_negative_rows [of "ua_vs_size u" "ua_vs_alloc_size u"] f(9,11)
    by linarith
  moreover have "ua_vs_alloc_size u \<noteq> 0"
    unfolding f(5) by (rule urb_alloc_size_nonzero)
  ultimately show ?thesis by linarith
qed

text \<open>
  C5, as stated, fails. On the older generation an entry of 32 bytes (256 bits) gets one
  row, where rows of 128 bits would give two: the rows are 128 bytes wide. On the newer
  generation a geometry-stage row count of 5 is emitted as 5: only the vertex-stage
  count is remapped.
\<close>

theorem row_granularity_counterexample:
  "fst (urb_entry_sizes pipeline_two_slots) = 32 \<and>
   map_option ua_vs_alloc_size (urb_alloc_gen6 stage_bits pipeline_two_slots) = Some 1 \<and>
   spec_row_count 128 (8 * 32) = 2 \<and>
   spec_row_count 512 (8 * snd (urb_entry_sizes pipeline_gen7_gs)) = 5 \<and>
   map_option ua_gs_alloc_size (urb_alloc_gen7 stage_bits pipeline_gen7_gs) = Some 5"
  by code_simp

lemma and_not_7: "(x::int) AND NOT 7 = 8 * (x div 8)"
  using and_not_mask_int [of x 3] by (simp add: mask_eq_exp_minus_1 push_bit_eq_mult drop_bit_eq_div)

lemma entry_count_gen7_ok:
  fixes s r :: int
  assumes "57344 \<le> s" and "1 \<le> r" and "r \<le> 28"
  shows "32 \<le> (s sdiv 64 sdiv r) AND NOT 7"
proof -
  have a: "896 \<le> s div 64"
    using assms(1) zdiv_mono1 [of 57344 s 64] by simp
  have "896 div 28 \<le> 896 div r"
    using assms(2,3) by (intro zdiv_mono2) simp_all
  also have "\<dots> \<le> (s div 64) div r"
    using a assms(2) by (intro zdiv_mono1) simp_all
  finally have b: "32 \<le> (s div 64) div r"
    by simp
  have "4 \<le> ((s div 64) div r) div 8"
    using zdiv_mono1 [OF b, of 8] by simp
  then have "32 \<le> ((s div 64) div r) AND NOT 7"
    unfolding and_not_7 by simp
  moreover have "s sdiv 64 = s div 64"
    using assms(1) by (intro sdiv_nonneg) simp_all
  moreover have "(s div 64) sdiv r = (s div 64) div r"
    using a assms(2) by (intro sdiv_nonneg) simp_all
  ultimately show ?thesis by simp
qed

lemma urb_partition_gen7_lower:
  "57344 \<le> fst (urb_partition fl p
      ((if gt (gpu p) = 3 then 512 else if gt (gpu p) = 2 then 256 else 128) * 1024 -
       (if gt (gpu p) = 3 then 32 else 16) * 1024))"
  by (simp add: urb_partition_def)

lemma slots_entry_size_112:
  fixes w :: "32 word"
  assumes "w \<le> 112"
  shows "0 \<le> int32 (sint w * (4 * 4))" "int32 (sint w * (4 * 4)) \<le> 1792"
proof -
  have "w \<le> 134217720"
    using assms by (rule order_trans) simp
  from slots_entry_size_plain [OF this]
  have e: "int32 (sint w * (4 * 4)) = 16 * uint w" by simp
  have "uint w \<le> 112"
    using assms by (simp add: word_le_def)
  then show "0 \<le> int32 (sint w * (4 * 4))" "int32 (sint w * (4 * 4)) \<le> 1792"
    unfolding e by simp_all
qed

lemma urb_entry_sizes_112:
  assumes "in_count (pipe_vs p) \<le> 112" and "out_count (pipe_vs p) \<le> 112"
    and "out_count (pipe_gs p) \<le> 112"
  shows "0 \<le> fst (urb_entry_sizes p)" "fst (urb_entry_sizes p) \<le> 1792"
  using slots_entry_size_112 [OF assms(1)] slots_entry_size_112 [OF assms(2)]
  by (simp_all add: urb_entry_sizes_def Let_def)

lemma urb_alloc_size_64_small:
  assumes "0 \<le> e" and "e \<le> 1792"
  shows "1 \<le> urb_alloc_size 64 e" "urb_alloc_size 64 e \<le> 28"
proof -
  have r: "urb_alloc_size 64 e =
      (if (e + 64 - 1) div 64 = 0 then 1 else (e + 64 - 1) div 64)"
    using assms by (intro urb_alloc_size_plain) simp_all
  have "0 \<le> (e + 64 - 1) div 64"
    using assms(1) by (simp add: pos_imp_zdiv_nonneg_iff)
  moreover have "(e + 64 - 1) div 64 \<le> (1792 + 64 - 1) div 64"
    using assms(2) by (intro zdiv_mono1) simp_all
  ultimately show "1 \<le> urb_alloc_size 64 e" "urb_alloc_size 64 e \<le> 28"
    unfolding r by (simp_all split: if_splits)
qed

text \<open>
  On the newer generation, with no slot count above 112, the allocation passes every
  assertion.
\<close>

lemma urb_alloc_gen7_small_slots:
  assumes "700 \<le> gen (gpu p)" and "gen (gpu p) \<le> 750"
    and "in_count (pipe_vs p) \<le> 112" and "out_count (pipe_vs p) \<le> 112"
    and "out_count (pipe_gs p) \<le> 112"
  shows "urb_alloc_gen7 fl p \<noteq> None"
proof -
  note e = urb_entry_sizes_112 [OF assms(3,4,5)]
  note a = urb_alloc_size_64_small [OF e]
  define r where "r = (if urb_alloc_size 64 (fst (urb_entry_sizes p)) = 5 then 6
      else urb_alloc_size 64 (fst (urb_entry_sizes p)))"
  have r: "1 \<le> r" "r \<le> 28"
    using a by (simp_all add: r_def)
  note c = entry_count_gen7_ok [OF urb_partition_gen7_lower r, of fl p]
  show ?thesis
    unfolding urb_alloc_gen7_def Let_def split_def INTEL_GPU_ASSERT_def
    using assms(1,2) c [unfolded r_def] by (simp split del: if_split)
qed

lemma build_urb_gen7_eq:
  "pipeline_build_urb_alloc_gen7 hw p =
     (case urb_alloc_gen7 (flags hw) p of
        None \<Rightarrow> None
      | Some u \<Rightarrow>
          if cmd_len p + 8 < INTEL_PSO_CMD_ENTRIES hw \<and> cmd_len p + 8 \<le> length (cmds p)
          then Some (p\<lparr> cmd_len := cmd_len p + 8,
                 cmds := take (cmd_len p) (cmds p) @
                   [ CMD_3DSTATE_URB_VS (render_cmd hw),
                     word_of_int
                       (push_bit (GEN7_URB_ANY_DW1_OFFSET__SHIFT (urb hw))
                          (ua_urb_offset u sdiv 8192) OR
                        push_bit (GEN7_URB_ANY_DW1_ENTRY_SIZE__SHIFT (urb hw))
                          (ua_vs_alloc_size u - 1) OR
                        ua_vs_entry_count u),
                     CMD_3DSTATE_URB_GS (render_cmd hw),
                     word_of_int
                       (push_bit (GEN7_URB_ANY_DW1_OFFSET__SHIFT (urb hw))
                          ((if ua_gs_size u \<noteq> 0 then ua_urb_offset u + ua_vs_size u
                            else ua_urb_offset u) sdiv 8192) OR
                        push_bit (GEN7_URB_ANY_DW1_ENTRY_SIZE__SHIFT (urb hw))
                          (ua_gs_alloc_size u - 1) OR
                        ua_gs_entry_count u),
                     CMD_3DSTATE_URB_HS (render_cmd hw),
                     word_of_int
                       (push_bit (GEN7_URB_ANY_DW1_OFFSET__SHIFT (urb hw))
                          ((if ua_gs_size u \<noteq> 0 then ua_urb_offset u + ua_vs_size u
                            else ua_urb_offset u) sdiv 8192)),
                     CMD_3DSTATE_URB_DS (render_cmd hw),
                     word_of_int
                       (push_bit (GEN7_URB_ANY_DW1_OFFSET__SHIFT (urb hw))
                          ((if ua_gs_size u \<noteq> 0 then ua_urb_offset u + ua_vs_size u
                            else ua_urb_offset u) sdiv 8192)) ] @
                   drop (cmd_len p + 8) (cmds p) \<rparr>)
          else None)"
  unfolding pipeline_build_urb_alloc_gen7_def pipeline_cmd_ptr_def store_words_def
    urb_words_gen7_def Let_def
  by (cases "urb_alloc_gen7 (flags hw) p")
    (simp_all add: add.commute [of _ "cmd_len p"] eval_nat_numeral)

text \<open>
  On the older generation, whatever the GT tier, with no slot count above 40 the
  allocation passes every assertion.
\<close>

lemma entry_count_gen6_bounds_any:
  "a \<in> {1, 2, 3, 4, 5} \<Longrightarrow> s \<in> {65536, 32768, 16384} \<Longrightarrow> 24 \<le> entry_count_gen6 s a"
  by (auto simp: entry_count_gen6_def Let_def and_not_3)

lemma urb_alloc_gen6_small_slots_any:
  assumes "gen (gpu p) = 600"
    and "in_count (pipe_vs p) \<le> 40" and "out_count (pipe_vs p) \<le> 40"
    and "out_count (pipe_gs p) \<le> 40"
  shows "urb_alloc_gen6 fl p \<noteq> None"
proof -
  note e = urb_entry_sizes_small [OF assms(2,3,4)]
  have av: "urb_alloc_size 128 (fst (urb_entry_sizes p)) \<in> {1, 2, 3, 4, 5}"
    using e by (intro urb_alloc_size_128_small) simp_all
  have ag: "urb_alloc_size 128 (snd (urb_entry_sizes p)) \<in> {1, 2, 3, 4, 5}"
    using e by (intro urb_alloc_size_128_small) simp_all
  have s: "fst (urb_partition fl p ((if gt (gpu p) = 2 then 64 else 32) * 1024))
      \<in> {65536, 32768, 16384}"
    by (simp add: urb_partition_def)
  have "24 \<le> entry_count_gen6
       (fst (urb_partition fl p ((if gt (gpu p) = 2 then 64 else 32) * 1024)))
       (urb_alloc_size 128 (fst (urb_entry_sizes p)))"
    using entry_count_gen6_bounds_any [OF av s] .
  moreover have "urb_alloc_size 128 (fst (urb_entry_sizes p)) \<le> 5"
    using av by auto
  moreover have "urb_alloc_size 128 (snd (urb_entry_sizes p)) \<le> 5"
    using ag by auto
  ultimately show ?thesis
    unfolding urb_alloc_gen6_def Let_def split_def INTEL_GPU_ASSERT_def
    using assms(1) by (simp split del: if_split)
qed

text \<open>
  C5, amended. With at most 134217720 slots per stage the entry sizes are 16 bytes per
  slot, and nothing wraps in the 32-bit \<open>int\<close> that holds them. For every per-stage
  entry size that this \<open>int\<close> holds as a value from 0 up to \<open>INT_MAX\<close> less the rounding
  term, the row count is the entry size divided by the row granularity, rounded up, with
  a zero result raised to 1, where a row has 1024 bits (128 bytes) on the older
  generation and 512 bits (64 bytes) on the newer. On the older generation the allocator
  emits its command only when both row counts are at most 5 and the vertex entry count
  is at least 24; it does emit for slot counts up to 40. The vertex-stage row count it
  emits, less one, in the size field of the second word, always lies between 1 and 5;
  the geometry-stage row count is at most 5, and at least 1 for entry sizes in that
  range. On the newer generation, which emits for slot counts up to 112 at least, the
  vertex-stage row count is emitted as 6 when it is exactly 5 and unchanged otherwise;
  the geometry-stage row count is never remapped.
\<close>

theorem urb_row_counts:
  "(in_count (pipe_vs p) \<le> 134217720 \<and> out_count (pipe_vs p) \<le> 134217720 \<and>
    out_count (pipe_gs p) \<le> 134217720 \<longrightarrow>
      urb_entry_sizes p =
        (16 * uint (if in_count (pipe_vs p) \<ge> out_count (pipe_vs p)
                    then in_count (pipe_vs p) else out_count (pipe_vs p)),
         16 * uint (out_count (pipe_gs p))) \<and>
      0 \<le> fst (urb_entry_sizes p) \<and> fst (urb_entry_sizes p) \<le> 2 ^ 31 - 128 \<and>
      0 \<le> snd (urb_entry_sizes p) \<and> snd (urb_entry_sizes p) \<le> 2 ^ 31 - 128) \<and>
   (gen (gpu p) = 600 \<and> in_count (pipe_vs p) \<le> 40 \<and> out_count (pipe_vs p) \<le> 40 \<and>
    out_count (pipe_gs p) \<le> 40 \<and> cmd_len p + 3 < INTEL_PSO_CMD_ENTRIES hw \<and>
    cmd_len p + 3 \<le> length (cmds p)
      \<longrightarrow> pipeline_build_urb_alloc_gen6 hw p \<noteq> None) \<and>
   (\<forall>p'. pipeline_build_urb_alloc_gen6 hw p = Some p' \<longrightarrow>
      (\<exists>u. urb_alloc_gen6 (flags hw) p = Some u \<and>
         1 \<le> ua_vs_alloc_size u \<and> ua_vs_alloc_size u \<le> 5 \<and> ua_gs_alloc_size u \<le> 5 \<and>
         (0 \<le> fst (urb_entry_sizes p) \<and> fst (urb_entry_sizes p) \<le> 2 ^ 31 - 128 \<longrightarrow>
            ua_vs_alloc_size u = spec_row_count 1024 (8 * fst (urb_entry_sizes p))) \<and>
         (0 \<le> snd (urb_entry_sizes p) \<and> snd (urb_entry_sizes p) \<le> 2 ^ 31 - 128 \<longrightarrow>
            ua_gs_alloc_size u = spec_row_count 1024 (8 * snd (urb_entry_sizes p)) \<and>
            1 \<le> ua_gs_alloc_size u) \<and>
         p' = p\<lparr> cmd_len := cmd_len p + 3,
                  cmds := take (cmd_len p) (cmds p) @
                    [ CMD_3DSTATE_URB (render_cmd hw) OR 1,
                      word_of_int
                        (push_bit (GEN6_URB_DW1_VS_ENTRY_SIZE__SHIFT (urb hw))
                           (ua_vs_alloc_size u - 1) OR
                         push_bit (GEN6_URB_DW1_VS_ENTRY_COUNT__SHIFT (urb hw))
                           (ua_vs_entry_count u)),
                      word_of_int
                        (push_bit (GEN6_URB_DW2_GS_ENTRY_COUNT__SHIFT (urb hw))
                           (ua_gs_entry_count u) OR
                         push_bit (GEN6_URB_DW2_GS_ENTRY_SIZE__SHIFT (urb hw))
                           (ua_gs_alloc_size u - 1)) ] @
                    drop (cmd_len p + 3) (cmds p) \<rparr>)) \<and>
   (700 \<le> gen (gpu p) \<and> gen (gpu p) \<le> 750 \<and> in_count (pipe_vs p) \<le> 112 \<and>
    out_count (pipe_vs p) \<le> 112 \<and> out_count (pipe_gs p) \<le> 112 \<and>
    cmd_len p + 8 < INTEL_PSO_CMD_ENTRIES hw \<and> cmd_len p + 8 \<le> length (cmds p)
      \<longrightarrow> pipeline_build_urb_alloc_gen7 hw p \<noteq> None) \<and>
   (\<forall>p'. pipeline_build_urb_alloc_gen7 hw p = Some p' \<longrightarrow>
      (\<exists>u. urb_alloc_gen7 (flags hw) p = Some u \<and>
         (0 \<le> fst (urb_entry_sizes p) \<and> fst (urb_entry_sizes p) \<le> 2 ^ 31 - 64 \<longrightarrow>
            ua_vs_alloc_size u =
              (if spec_row_count 512 (8 * fst (urb_entry_sizes p)) = 5 then 6
               else spec_row_count 512 (8 * fst (urb_entry_sizes p)))) \<and>
         (0 \<le> snd (urb_entry_sizes p) \<and> snd (urb_entry_sizes p) \<le> 2 ^ 31 - 64 \<longrightarrow>
            ua_gs_alloc_size u = spec_row_count 512 (8 * snd (urb_entry_sizes p))) \<and>
         p' = p\<lparr> cmd_len := cmd_len p + 8,
                  cmds := take (cmd_len p) (cmds p) @
                    [ CMD_3DSTATE_URB_VS (render_cmd hw),
                      word_of_int
                        (push_bit (GEN7_URB_ANY_DW1_OFFSET__SHIFT (urb hw))
                           (ua_urb_offset u sdiv 8192) OR
                         push_bit (GEN7_URB_ANY_DW1_ENTRY_SIZE__SHIFT (urb hw))
                           (ua_vs_alloc_size u - 1) OR
                         ua_vs_entry_count u),
                      CMD_3DSTATE_URB_GS (render_cmd hw),
                      word_of_int
                        (push_bit (GEN7_URB_ANY_DW1_OFFSET__SHIFT (urb hw))
                           ((if ua_gs_size u \<noteq> 0 then ua_urb_offset u + ua_vs_size u
                             else ua_urb_offset u) sdiv 8192) OR
                         push_bit (GEN7_URB_ANY_DW1_ENTRY_SIZE__SHIFT (urb hw))
                           (ua_gs_alloc_size u - 1) OR
                         ua_gs_entry_count u),
                      CMD_3DSTATE_URB_HS (render_cmd hw),
                      word_of_int
                        (push_bit (GEN7_URB_ANY_DW1_OFFSET__SHIFT (urb hw))
                           ((if ua_gs_size u \<noteq> 0 then ua_urb_offset u + ua_vs_size u
                             else ua_urb_offset u) sdiv 8192)),
                      CMD_3DSTATE_URB_DS (render_cmd hw),
                      word_of_int
                        (push_bit (GEN7_URB_ANY_DW1_OFFSET__SHIFT (urb hw))
                           ((if ua_gs_size u \<noteq> 0 then ua_urb_offset u + ua_vs_size u
                             else ua_urb_offset u) sdiv 8192)) ] @
                    drop (cmd_len p + 8) (cmds p) \<rparr>))"
proof (intro conjI impI allI)
  assume "in_count (pipe_vs p) \<le> 134217720 \<and> out_count (pipe_vs p) \<le> 134217720 \<and>
    out_count (pipe_gs p) \<le> 134217720"
  then have s: "in_count (pipe_vs p) \<le> 134217720" "out_count (pipe_vs p) \<le> 134217720"
    "out_count (pipe_gs p) \<le> 134217720"
    by simp_all
  note e = urb_entry_sizes_plain [OF s]
  show "urb_entry_sizes p =
        (16 * uint (if in_count (pipe_vs p) \<ge> out_count (pipe_vs p)
                    then in_count (pipe_vs p) else out_count (pipe_vs p)),
         16 * uint (out_count (pipe_gs p)))"
    by (rule e(1))
  show "0 \<le> fst (urb_entry_sizes p)" by (rule e(2))
  show "fst (urb_entry_sizes p) \<le> 2 ^ 31 - 128" by (rule e(3))
  show "0 \<le> snd (urb_entry_sizes p)" by (rule e(4))
  show "snd (urb_entry_sizes p) \<le> 2 ^ 31 - 128" by (rule e(5))
next
  assume a: "gen (gpu p) = 600 \<and> in_count (pipe_vs p) \<le> 40 \<and> out_count (pipe_vs p) \<le> 40 \<and>
    out_count (pipe_gs p) \<le> 40 \<and> cmd_len p + 3 < INTEL_PSO_CMD_ENTRIES hw \<and>
    cmd_len p + 3 \<le> length (cmds p)"
  then have "urb_alloc_gen6 (flags hw) p \<noteq> None"
    by (intro urb_alloc_gen6_small_slots_any) simp_all
  then show "pipeline_build_urb_alloc_gen6 hw p \<noteq> None"
    unfolding build_urb_gen6_eq using a by (auto split: option.splits)
next
  fix p'
  assume b: "pipeline_build_urb_alloc_gen6 hw p = Some p'"
  then obtain u where u: "urb_alloc_gen6 (flags hw) p = Some u"
    unfolding build_urb_gen6_eq by (auto split: option.splits)
  note f = urb_alloc_gen6_Some [OF u]
  have v: "1 \<le> ua_vs_alloc_size u"
    by (rule urb_alloc_gen6_vs_rows [OF u])
  have rv: "ua_vs_alloc_size u = spec_row_count 1024 (8 * fst (urb_entry_sizes p))"
    if "0 \<le> fst (urb_entry_sizes p) \<and> fst (urb_entry_sizes p) \<le> 2 ^ 31 - 128"
    unfolding f(5) using that by (intro urb_alloc_size_rows) simp_all
  have rg: "ua_gs_alloc_size u = spec_row_count 1024 (8 * snd (urb_entry_sizes p)) \<and>
      1 \<le> ua_gs_alloc_size u"
    if r: "0 \<le> snd (urb_entry_sizes p) \<and> snd (urb_entry_sizes p) \<le> 2 ^ 31 - 128"
  proof -
    have g: "ua_gs_alloc_size u = spec_row_count 1024 (8 * snd (urb_entry_sizes p))"
      unfolding f(6) using r by (intro urb_alloc_size_rows) simp_all
    have "1 \<le> ua_gs_alloc_size u"
      unfolding g using r by (intro spec_row_count_pos) simp
    with g show ?thesis by simp
  qed
  have w: "p' = p\<lparr> cmd_len := cmd_len p + 3,
                  cmds := take (cmd_len p) (cmds p) @
                    [ CMD_3DSTATE_URB (render_cmd hw) OR 1,
                      word_of_int
                        (push_bit (GEN6_URB_DW1_VS_ENTRY_SIZE__SHIFT (urb hw))
                           (ua_vs_alloc_size u - 1) OR
                         push_bit (GEN6_URB_DW1_VS_ENTRY_COUNT__SHIFT (urb hw))
                           (ua_vs_entry_count u)),
                      word_of_int
                        (push_bit (GEN6_URB_DW2_GS_ENTRY_COUNT__SHIFT (urb hw))
                           (ua_gs_entry_count u) OR
                         push_bit (GEN6_URB_DW2_GS_ENTRY_SIZE__SHIFT (urb hw))
                           (ua_gs_alloc_size u - 1)) ] @
                    drop (cmd_len p + 3) (cmds p) \<rparr>"
    using b unfolding build_urb_gen6_eq u by (simp split: if_splits)
  show "\<exists>u. urb_alloc_gen6 (flags hw) p = Some u \<and>
         1 \<le> ua_vs_alloc_size u \<and> ua_vs_alloc_size u \<le> 5 \<and> ua_gs_alloc_size u \<le> 5 \<and>
         (0 \<le> fst (urb_entry_sizes p) \<and> fst (urb_entry_sizes p) \<le> 2 ^ 31 - 128 \<longrightarrow>
            ua_vs_alloc_size u = spec_row_count 1024 (8 * fst (urb_entry_sizes p))) \<and>
         (0 \<le> snd (urb_entry_sizes p) \<and> snd (urb_entry_sizes p) \<le> 2 ^ 31 - 128 \<longrightarrow>
            ua_gs_alloc_size u = spec_row_count 1024 (8 * snd (urb_entry_sizes p)) \<and>
            1 \<le> ua_gs_alloc_size u) \<and>
         p' = p\<lparr> cmd_len := cmd_len p + 3,
                  cmds := take (cmd_len p) (cmds p) @
                    [ CMD_3DSTATE_URB (render_cmd hw) OR 1,
                      word_of_int
                        (push_bit (GEN6_URB_DW1_VS_ENTRY_SIZE__SHIFT (urb hw))
                           (ua_vs_alloc_size u - 1) OR
                         push_bit (GEN6_URB_DW1_VS_ENTRY_COUNT__SHIFT (urb hw))
                           (ua_vs_entry_count u)),
                      word_of_int
                        (push_bit (GEN6_URB_DW2_GS_ENTRY_COUNT__SHIFT (urb hw))
                           (ua_gs_entry_count u) OR
                         push_bit (GEN6_URB_DW2_GS_ENTRY_SIZE__SHIFT (urb hw))
                           (ua_gs_alloc_size u - 1)) ] @
                    drop (cmd_len p + 3) (cmds p) \<rparr>"
    using u v f(7) f(8) rv rg w by (intro exI [of _ u] conjI impI) blast+
next
  assume a: "700 \<le> gen (gpu p) \<and> gen (gpu p) \<le> 750 \<and> in_count (pipe_vs p) \<le> 112 \<and>
    out_count (pipe_vs p) \<le> 112 \<and> out_count (pipe_gs p) \<le> 112 \<and>
    cmd_len p + 8 < INTEL_PSO_CMD_ENTRIES hw \<and> cmd_len p + 8 \<le> length (cmds p)"
  then have "urb_alloc_gen7 (flags hw) p \<noteq> None"
    by (intro urb_alloc_gen7_small_slots) simp_all
  then show "pipeline_build_urb_alloc_gen7 hw p \<noteq> None"
    unfolding build_urb_gen7_eq using a by (auto split: option.splits)
next
  fix p'
  assume b: "pipeline_build_urb_alloc_gen7 hw p = Some p'"
  then obtain u where u: "urb_alloc_gen7 (flags hw) p = Some u"
    unfolding build_urb_gen7_eq by (auto split: option.splits)
  note f = urb_alloc_gen7_Some [OF u]
  have rv: "ua_vs_alloc_size u =
              (if spec_row_count 512 (8 * fst (urb_entry_sizes p)) = 5 then 6
               else spec_row_count 512 (8 * fst (urb_entry_sizes p)))"
    if "0 \<le> fst (urb_entry_sizes p) \<and> fst (urb_entry_sizes p) \<le> 2 ^ 31 - 64"
  proof -
    have "urb_alloc_size 64 (fst (urb_entry_sizes p)) =
        spec_row_count 512 (8 * fst (urb_entry_sizes p))"
      using that by (intro urb_alloc_size_rows) simp_all
    then show ?thesis
      unfolding f(1) by simp
  qed
  have rg: "ua_gs_alloc_size u = spec_row_count 512 (8 * snd (urb_entry_sizes p))"
    if "0 \<le> snd (urb_entry_sizes p) \<and> snd (urb_entry_sizes p) \<le> 2 ^ 31 - 64"
    unfolding f(2) using that by (intro urb_alloc_size_rows) simp_all
  have w: "p' = p\<lparr> cmd_len := cmd_len p + 8,
                  cmds := take (cmd_len p) (cmds p) @
                    [ CMD_3DSTATE_URB_VS (render_cmd hw),
                      word_of_int
                        (push_bit (GEN7_URB_ANY_DW1_OFFSET__SHIFT (urb hw))
                           (ua_urb_offset u sdiv 8192) OR
                         push_bit (GEN7_URB_ANY_DW1_ENTRY_SIZE__SHIFT (urb hw))
                           (ua_vs_alloc_size u - 1) OR
                         ua_vs_entry_count u),
                      CMD_3DSTATE_URB_GS (render_cmd hw),
                      word_of_int
                        (push_bit (GEN7_URB_ANY_DW1_OFFSET__SHIFT (urb hw))
                           ((if ua_gs_size u \<noteq> 0 then ua_urb_offset u + ua_vs_size u
                             else ua_urb_offset u) sdiv 8192) OR
                         push_bit (GEN7_URB_ANY_DW1_ENTRY_SIZE__SHIFT (urb hw))
                           (ua_gs_alloc_size u - 1) OR
                         ua_gs_entry_count u),
                      CMD_3DSTATE_URB_HS (render_cmd hw),
                      word_of_int
                        (push_bit (GEN7_URB_ANY_DW1_OFFSET__SHIFT (urb hw))
                           ((if ua_gs_size u \<noteq> 0 then ua_urb_offset u + ua_vs_size u
                             else ua_urb_offset u) sdiv 8192)),
                      CMD_3DSTATE_URB_DS (render_cmd hw),
                      word_of_int
                        (push_bit (GEN7_URB_ANY_DW1_OFFSET__SHIFT (urb hw))
                           ((if ua_gs_size u \<noteq> 0 then ua_urb_offset u + ua_vs_size u
                             else ua_urb_offset u) sdiv 8192)) ] @
                    drop (cmd_len p + 8) (cmds p) \<rparr>"
    using b unfolding build_urb_gen7_eq u by (simp split: if_splits)
  show "\<exists>u. urb_alloc_gen7 (flags hw) p = Some u \<and>
         (0 \<le> fst (urb_entry_sizes p) \<and> fst (urb_entry_sizes p) \<le> 2 ^ 31 - 64 \<longrightarrow>
            ua_vs_alloc_size u =
              (if spec_row_count 512 (8 * fst (urb_entry_sizes p)) = 5 then 6
               else spec_row_count 512 (8 * fst (urb_entry_sizes p)))) \<and>
         (0 \<le> snd (urb_entry_sizes p) \<and> snd (urb_entry_sizes p) \<le> 2 ^ 31 - 64 \<longrightarrow>
            ua_gs_alloc_size u = spec_row_count 512 (8 * snd (urb_entry_sizes p))) \<and>
         p' = p\<lparr> cmd_len := cmd_len p + 8,
                  cmds := take (cmd_len p) (cmds p) @
                    [ CMD_3DSTATE_URB_VS (render_cmd hw),
                      word_of_int
                        (push_bit (GEN7_URB_ANY_DW1_OFFSET__SHIFT (urb hw))
                           (ua_urb_offset u sdiv 8192) OR
                         push_bit (GEN7_URB_ANY_DW1_ENTRY_SIZE__SHIFT (urb hw))
                           (ua_vs_alloc_size u - 1) OR
                         ua_vs_entry_count u),
                      CMD_3DSTATE_URB_GS (render_cmd hw),
                      word_of_int
                        (push_bit (GEN7_URB_ANY_DW1_OFFSET__SHIFT (urb hw))
                           ((if ua_gs_size u \<noteq> 0 then ua_urb_offset u + ua_vs_size u
                             else ua_urb_offset u) sdiv 8192) OR
                         push_bit (GEN7_URB_ANY_DW1_ENTRY_SIZE__SHIFT (urb hw))
                           (ua_gs_alloc_size u - 1) OR
                         ua_gs_entry_count u),
                      CMD_3DSTATE_URB_HS (render_cmd hw),
                      word_of_int
                        (push_bit (GEN7_URB_ANY_DW1_OFFSET__SHIFT (urb hw))
                           ((if ua_gs_size u \<noteq> 0 then ua_urb_offset u + ua_vs_size u
                             else ua_urb_offset u) sdiv 8192)),
                      CMD_3DSTATE_URB_DS (render_cmd hw),
                      word_of_int
                        (push_bit (GEN7_URB_ANY_DW1_OFFSET__SHIFT (urb hw))
                           ((if ua_gs_size u \<noteq> 0 then ua_urb_offset u + ua_vs_size u
                             else ua_urb_offset u) sdiv 8192)) ] @
                    drop (cmd_len p + 8) (cmds p) \<rparr>"
    using u rv rg w by (intro exI [of _ u] conjI impI) blast+
qed

lemma build_urb_example_rows:
  "pipeline_build_urb_alloc_gen6 hw_example pipeline_vs_20 =
     Some (pipeline_vs_20\<lparr> cmds := [0x78050001, 0x000200A8, 0] @ replicate 125 0,
                             cmd_len := 3 \<rparr>)"
  "pipeline_build_urb_alloc_gen7 hw_example pipeline_gen7_gs =
     Some (pipeline_gen7_gs\<lparr>
       cmds := [0x78300000, 0x04050140, 0x78330000, 0x22040140, 0x78310000, 0x22000000,
                0x78320000, 0x22000000] @ replicate 120 0,
       cmd_len := 8 \<rparr>)"
  by code_simp+

lemma urb_entry_sizes_examples:
  "urb_entry_sizes pipeline_vs_20 = (320, 0)"
  "urb_entry_sizes pipeline_gen7_gs = (320, 320)"
  "spec_row_count 1024 (8 * 320) = 3" "spec_row_count 1024 (8 * 0) = 1"
  "spec_row_count 512 (8 * 320) = 5"
  by code_simp+

theorem urb_row_counts_witness:
  "pipeline_build_urb_alloc_gen6 hw_example pipeline_vs_20 =
     Some (pipeline_vs_20\<lparr> cmds := [0x78050001, 0x000200A8, 0] @ replicate 125 0,
                             cmd_len := 3 \<rparr>) \<and>
   (\<exists>u. urb_alloc_gen6 stage_bits pipeline_vs_20 = Some u \<and>
        ua_vs_alloc_size u = spec_row_count 1024 (8 * 320) \<and> ua_vs_alloc_size u = 3 \<and>
        ua_gs_alloc_size u = spec_row_count 1024 (8 * 0) \<and> ua_gs_alloc_size u = 1) \<and>
   pipeline_build_urb_alloc_gen7 hw_example pipeline_gen7_gs =
     Some (pipeline_gen7_gs\<lparr>
       cmds := [0x78300000, 0x04050140, 0x78330000, 0x22040140, 0x78310000, 0x22000000,
                0x78320000, 0x22000000] @ replicate 120 0,
       cmd_len := 8 \<rparr>) \<and>
   (\<exists>u. urb_alloc_gen7 stage_bits pipeline_gen7_gs = Some u \<and>
        spec_row_count 512 (8 * 320) = 5 \<and> ua_vs_alloc_size u = 6 \<and>
        ua_gs_alloc_size u = 5)"
proof -
  have fl: "flags hw_example = stage_bits"
    by (simp add: hw_example_def)
  have small6: "gen (gpu pipeline_vs_20) = 600 \<and> in_count (pipe_vs pipeline_vs_20) \<le> 40 \<and>
      out_count (pipe_vs pipeline_vs_20) \<le> 40 \<and> out_count (pipe_gs pipeline_vs_20) \<le> 40 \<and>
      cmd_len pipeline_vs_20 + 3 < INTEL_PSO_CMD_ENTRIES hw_example \<and>
      cmd_len pipeline_vs_20 + 3 \<le> length (cmds pipeline_vs_20)"
    by code_simp
  have small7: "700 \<le> gen (gpu pipeline_gen7_gs) \<and> gen (gpu pipeline_gen7_gs) \<le> 750 \<and>
      in_count (pipe_vs pipeline_gen7_gs) \<le> 112 \<and>
      out_count (pipe_vs pipeline_gen7_gs) \<le> 112 \<and>
      out_count (pipe_gs pipeline_gen7_gs) \<le> 112 \<and>
      cmd_len pipeline_gen7_gs + 8 < INTEL_PSO_CMD_ENTRIES hw_example \<and>
      cmd_len pipeline_gen7_gs + 8 \<le> length (cmds pipeline_gen7_gs)"
    by code_simp
  note t6 = urb_row_counts [of pipeline_vs_20 hw_example, THEN conjunct2]
  note t7 = urb_row_counts [of pipeline_gen7_gs hw_example, THEN conjunct2, THEN conjunct2,
      THEN conjunct2]
  have "pipeline_build_urb_alloc_gen6 hw_example pipeline_vs_20 \<noteq> None"
    using t6 [THEN conjunct1] small6 by (rule mp)
  have "pipeline_build_urb_alloc_gen7 hw_example pipeline_gen7_gs \<noteq> None"
    using t7 [THEN conjunct1] small7 by (rule mp)
  from t6 [THEN conjunct2, THEN conjunct1, rule_format, OF build_urb_example_rows(1)]
  obtain u where u: "urb_alloc_gen6 stage_bits pipeline_vs_20 = Some u"
    and uv: "0 \<le> fst (urb_entry_sizes pipeline_vs_20) \<and>
         fst (urb_entry_sizes pipeline_vs_20) \<le> 2 ^ 31 - 128 \<longrightarrow>
         ua_vs_alloc_size u = spec_row_count 1024 (8 * fst (urb_entry_sizes pipeline_vs_20))"
    and ug: "0 \<le> snd (urb_entry_sizes pipeline_vs_20) \<and>
         snd (urb_entry_sizes pipeline_vs_20) \<le> 2 ^ 31 - 128 \<longrightarrow>
         ua_gs_alloc_size u = spec_row_count 1024 (8 * snd (urb_entry_sizes pipeline_vs_20)) \<and>
         1 \<le> ua_gs_alloc_size u"
    unfolding fl by blast
  have a: "\<exists>u. urb_alloc_gen6 stage_bits pipeline_vs_20 = Some u \<and>
        ua_vs_alloc_size u = spec_row_count 1024 (8 * 320) \<and> ua_vs_alloc_size u = 3 \<and>
        ua_gs_alloc_size u = spec_row_count 1024 (8 * 0) \<and> ua_gs_alloc_size u = 1"
    using u uv ug unfolding urb_entry_sizes_examples fst_conv snd_conv
    by (intro exI [of _ u]) simp
  from t7 [THEN conjunct2, rule_format, OF build_urb_example_rows(2)]
  obtain v where v: "urb_alloc_gen7 stage_bits pipeline_gen7_gs = Some v"
    and vv: "0 \<le> fst (urb_entry_sizes pipeline_gen7_gs) \<and>
         fst (urb_entry_sizes pipeline_gen7_gs) \<le> 2 ^ 31 - 64 \<longrightarrow>
         ua_vs_alloc_size v =
           (if spec_row_count 512 (8 * fst (urb_entry_sizes pipeline_gen7_gs)) = 5 then 6
            else spec_row_count 512 (8 * fst (urb_entry_sizes pipeline_gen7_gs)))"
    and vg: "0 \<le> snd (urb_entry_sizes pipeline_gen7_gs) \<and>
         snd (urb_entry_sizes pipeline_gen7_gs) \<le> 2 ^ 31 - 64 \<longrightarrow>
         ua_gs_alloc_size v = spec_row_count 512 (8 * snd (urb_entry_sizes pipeline_gen7_gs))"
    unfolding fl by blast
  have b: "\<exists>u. urb_alloc_gen7 stage_bits pipeline_gen7_gs = Some u \<and>
        spec_row_count 512 (8 * 320) = 5 \<and> ua_vs_alloc_size u = 6 \<and>
        ua_gs_alloc_size u = 5"
    using v vv vg unfolding urb_entry_sizes_examples fst_conv snd_conv
    by (intro exI [of _ v]) simp
  from a b build_urb_example_rows show ?thesis
    by (intro conjI)
qed

section \<open>Theorems: push-constant allocation\<close>

lemma push_const_words:
  "push_const_words_gen7 hw =
     Some
       [ CMD_3DSTATE_PUSH_CONSTANT_ALLOC_VS (render_cmd hw),
         push_bit (GEN7_PCB_ALLOC_ANY_DW1_OFFSET__SHIFT (urb hw)) 0 OR
           push_bit (GEN7_PCB_ALLOC_ANY_DW1_SIZE__SHIFT (urb hw)) 8,
         CMD_3DSTATE_PUSH_CONSTANT_ALLOC_PS (render_cmd hw),
         push_bit (GEN7_PCB_ALLOC_ANY_DW1_OFFSET__SHIFT (urb hw)) 8 OR
           push_bit (GEN7_PCB_ALLOC_ANY_DW1_SIZE__SHIFT (urb hw)) 8,
         CMD_3DSTATE_PUSH_CONSTANT_ALLOC_HS (render_cmd hw), 0,
         CMD_3DSTATE_PUSH_CONSTANT_ALLOC_DS (render_cmd hw), 0,
         CMD_3DSTATE_PUSH_CONSTANT_ALLOC_GS (render_cmd hw), 0 ]"
  by (simp add: push_const_words_gen7_def Let_def)

text \<open>
  C6. On the newer generation the push-constant allocator, whenever the ten words fit
  the command buffer, appends exactly five two-word commands in the order vertex,
  fragment, hull, domain, geometry. The second word of the vertex command carries
  offset 0 and size 8 (KiB); that of the fragment command carries 8 in the offset field
  and 8 in the size field, 8 being the end of the window in KiB (8) minus the rounded
  start offset in KiB (0); those of the hull, domain and geometry commands are zero. It
  aborts when the generation is out of range or the words do not fit.
\<close>

theorem push_const_alloc:
  "pipeline_build_push_const_alloc_gen7 hw p =
     (if INTEL_GPU_ASSERT (gpu p) 700 750 \<and> cmd_len p + 10 < INTEL_PSO_CMD_ENTRIES hw \<and>
         cmd_len p + 10 \<le> length (cmds p)
      then Some (p\<lparr> cmd_len := cmd_len p + 10,
                     cmds := take (cmd_len p) (cmds p) @
                       [ CMD_3DSTATE_PUSH_CONSTANT_ALLOC_VS (render_cmd hw),
                         push_bit (GEN7_PCB_ALLOC_ANY_DW1_OFFSET__SHIFT (urb hw)) 0 OR
                           push_bit (GEN7_PCB_ALLOC_ANY_DW1_SIZE__SHIFT (urb hw)) 8,
                         CMD_3DSTATE_PUSH_CONSTANT_ALLOC_PS (render_cmd hw),
                         push_bit (GEN7_PCB_ALLOC_ANY_DW1_OFFSET__SHIFT (urb hw)) 8 OR
                           push_bit (GEN7_PCB_ALLOC_ANY_DW1_SIZE__SHIFT (urb hw)) 8,
                         CMD_3DSTATE_PUSH_CONSTANT_ALLOC_HS (render_cmd hw), 0,
                         CMD_3DSTATE_PUSH_CONSTANT_ALLOC_DS (render_cmd hw), 0,
                         CMD_3DSTATE_PUSH_CONSTANT_ALLOC_GS (render_cmd hw), 0 ] @
                       drop (cmd_len p + 10) (cmds p) \<rparr>)
      else None)"
proof -
  show ?thesis
    unfolding pipeline_build_push_const_alloc_gen7_def push_const_words
      pipeline_cmd_ptr_def store_words_def
    by (simp add: add.commute [of _ "cmd_len p"] del: length_Cons One_nat_def)
      (simp add: eval_nat_numeral)
qed

text \<open>On the sample layout (offset field at bit 16, size field at bit 0) the ten words.\<close>

lemma push_const_example:
  "push_const_words_gen7 hw_example =
     Some [0x79120000, 0x00000008, 0x79160000, 0x00080008, 0x79130000, 0,
           0x79140000, 0, 0x79150000, 0]"
  by code_simp

section \<open>Theorems: vertex elements\<close>

text \<open>
  The fall-through \<open>switch\<close> in closed form, for every channel count: store-source in
  the components below the channel count when that count is 1 to 4, the defaults
  elsewhere.
\<close>

lemma vertex_element_comps_closed:
  "vertex_element_comps vf is_int c =
     [ if 1 \<le> c \<and> c \<le> 4 then GEN6_VFCOMP_STORE_SRC vf else GEN6_VFCOMP_STORE_0 vf,
       if 2 \<le> c \<and> c \<le> 4 then GEN6_VFCOMP_STORE_SRC vf else GEN6_VFCOMP_STORE_0 vf,
       if 3 \<le> c \<and> c \<le> 4 then GEN6_VFCOMP_STORE_SRC vf else GEN6_VFCOMP_STORE_0 vf,
       if c = 4 then GEN6_VFCOMP_STORE_SRC vf
       else if is_int then GEN6_VFCOMP_STORE_1_INT vf else GEN6_VFCOMP_STORE_1_FP vf ]"
proof -
  consider "c = 0" | "c = 1" | "c = 2" | "c = 3" | "c = 4" | "5 \<le> c"
    by linarith
  then show ?thesis
    by cases (simp_all add: vertex_element_comps_def Let_def)
qed

text \<open>The loop over the declared attributes, as a map over the list.\<close>

lemma vertex_element_states_eq:
  "vertex_element_states hw ext g attrs =
     (if list_all (\<lambda>attr. offsetInBytes attr \<le> 2047) attrs
      then Some (concat (map (\<lambda>attr.
             [ push_bit (GEN6_VE_STATE_DW0_VB_INDEX__SHIFT (ve hw)) (word_of_nat (binding attr)) OR
               GEN6_VE_STATE_DW0_VALID (ve hw) OR
               push_bit (GEN6_VE_STATE_DW0_FORMAT__SHIFT (ve hw))
                 (word_of_int (intel_format_translate_color ext g (format attr))) OR
               word_of_nat (offsetInBytes attr),
               ve_state_dw1 (ve hw)
                 (vertex_element_comps (vfcomp hw) (icd_format_is_int ext (format attr))
                    (icd_format_get_channel_count ext (format attr))) ]) attrs))
      else None)"
  by (induction attrs) (simp_all add: Let_def)

lemma cmd_len_uint8:
  "(if special then ((1 + 2 * k) mod 256 + 2) mod 256 else (1 + 2 * k) mod 256) =
     (1 + 2 * k + (if special then 2 else 0)) mod (256 :: nat)"
  by (cases special) (simp_all only: if_True if_False add_0_right mod_add_left_eq)

text \<open>
  With at most 126 declared attributes the 8-bit command length holds the number of
  words written, and it is 1 only when there is nothing to emit.
\<close>

lemma cmd_len_no_wrap:
  assumes "k \<le> 126"
  shows "(1 + 2 * k + (if special then 2 else 0)) mod (256 :: nat) =
           1 + 2 * k + (if special then 2 else 0)"
    and "(1 + 2 * k + (if special then 2 else 0)) mod (256 :: nat) = 1 \<longleftrightarrow>
           k = 0 \<and> \<not> special"
  using assms by auto

text \<open>
  C7. The encoder, for every descriptor and every pipeline. It aborts when the
  generation is out of range; it returns without emitting when the 8-bit command length
  is 1; otherwise, when the words fit and every byte offset is at most 2047, it appends
  the header, then for each declared attribute in order a two-word record, then the
  extra element if the vertex shader reads an index. The second word of the record of an
  attribute whose format has \<open>c\<close> channels packs, in the four component fields:
  store-source in component 0 when \<open>1 \<le> c \<le> 4\<close>, in component 1 when \<open>2 \<le> c \<le> 4\<close>, in
  component 2 when \<open>3 \<le> c \<le> 4\<close>, in component 3 when \<open>c = 4\<close>; store-0 in each other
  component among 0 to 2; and in component 3, when \<open>c\<close> is not 4, store-1 in the integer
  encoding for an integer format and in the floating-point encoding otherwise.
\<close>

theorem vertex_element_store_modes:
  "pipeline_build_vertex_elements hw ext p info =
     (let attrs = pVertexAttributeDescriptions (vi info);
          special =
            (uses (pipe_vs p) AND (INTEL_SHADER_USE_VID hw OR INTEL_SHADER_USE_IID hw) \<noteq> 0);
          n = (1 + 2 * length attrs + (if special then 2 else 0)) mod 256;
          src = GEN6_VFCOMP_STORE_SRC (vfcomp hw);
          zero = GEN6_VFCOMP_STORE_0 (vfcomp hw);
          first = (\<lambda>attr.
            push_bit (GEN6_VE_STATE_DW0_VB_INDEX__SHIFT (ve hw)) (word_of_nat (binding attr)) OR
            GEN6_VE_STATE_DW0_VALID (ve hw) OR
            push_bit (GEN6_VE_STATE_DW0_FORMAT__SHIFT (ve hw))
              (word_of_int (intel_format_translate_color ext (gpu p) (format attr))) OR
            word_of_nat (offsetInBytes attr));
          second = (\<lambda>attr.
            let c = icd_format_get_channel_count ext (format attr)
            in word_of_int
                 (push_bit (GEN6_VE_STATE_DW1_COMP0__SHIFT (ve hw))
                    (if 1 \<le> c \<and> c \<le> 4 then src else zero) OR
                  push_bit (GEN6_VE_STATE_DW1_COMP1__SHIFT (ve hw))
                    (if 2 \<le> c \<and> c \<le> 4 then src else zero) OR
                  push_bit (GEN6_VE_STATE_DW1_COMP2__SHIFT (ve hw))
                    (if 3 \<le> c \<and> c \<le> 4 then src else zero) OR
                  push_bit (GEN6_VE_STATE_DW1_COMP3__SHIFT (ve hw))
                    (if c = 4 then src
                     else if icd_format_is_int ext (format attr)
                     then GEN6_VFCOMP_STORE_1_INT (vfcomp hw)
                     else GEN6_VFCOMP_STORE_1_FP (vfcomp hw))));
          words =
            [CMD_3DSTATE_VERTEX_ELEMENTS (render_cmd hw) OR word_of_int (int n - 2)] @
            concat (map (\<lambda>attr. [first attr, second attr]) attrs) @
            (if special then vertex_element_extra hw (pipe_vs p) else [])
      in if \<not> (600 \<le> gen (gpu p) \<and> gen (gpu p) \<le> 750) then None
         else if n = 1 then Some p
         else if cmd_len p + n < INTEL_PSO_CMD_ENTRIES hw \<and>
                 list_all (\<lambda>attr. offsetInBytes attr \<le> 2047) attrs \<and>
                 cmd_len p + length words \<le> length (cmds p)
         then Some (p\<lparr> cmd_len := cmd_len p + n,
                        cmds := take (cmd_len p) (cmds p) @ words @
                                drop (cmd_len p + length words) (cmds p) \<rparr>)
         else None)"
proof -
  show ?thesis
    unfolding pipeline_build_vertex_elements_def Let_def cmd_len_uint8
      vertex_element_states_eq vertex_element_comps_closed ve_state_dw1_def
      pipeline_cmd_ptr_def store_words_def INTEL_GPU_ASSERT_def
    by (simp add: add.commute [of _ "cmd_len p"] del: length_Cons One_nat_def)
qed

theorem vertex_element_store_modes_witness:
  "pipeline_build_vertex_elements hw_example ext_example pipeline_vid_iid info_two_attrs =
     Some (pipeline_vid_iid\<lparr>
       cmds := [0x78090005, 0x0603000C, 0x11130000, 0x02010000, 0x12240000,
                0x02000000, 0x56000000] @ replicate 121 0,
       cmd_len := 7 \<rparr>) \<and>
   icd_format_get_channel_count ext_example
     (format (pVertexAttributeDescriptions (vi info_two_attrs) ! 0)) = 3 \<and>
   \<not> icd_format_is_int ext_example
     (format (pVertexAttributeDescriptions (vi info_two_attrs) ! 0)) \<and>
   icd_format_get_channel_count ext_example
     (format (pVertexAttributeDescriptions (vi info_two_attrs) ! 1)) = 1 \<and>
   icd_format_is_int ext_example
     (format (pVertexAttributeDescriptions (vi info_two_attrs) ! 1)) \<and>
   (0x11130000 :: 32 word) =
     word_of_int
       (push_bit (GEN6_VE_STATE_DW1_COMP0__SHIFT (ve hw_example))
          (GEN6_VFCOMP_STORE_SRC (vfcomp hw_example)) OR
        push_bit (GEN6_VE_STATE_DW1_COMP1__SHIFT (ve hw_example))
          (GEN6_VFCOMP_STORE_SRC (vfcomp hw_example)) OR
        push_bit (GEN6_VE_STATE_DW1_COMP2__SHIFT (ve hw_example))
          (GEN6_VFCOMP_STORE_SRC (vfcomp hw_example)) OR
        push_bit (GEN6_VE_STATE_DW1_COMP3__SHIFT (ve hw_example))
          (GEN6_VFCOMP_STORE_1_FP (vfcomp hw_example))) \<and>
   (0x12240000 :: 32 word) =
     word_of_int
       (push_bit (GEN6_VE_STATE_DW1_COMP0__SHIFT (ve hw_example))
          (GEN6_VFCOMP_STORE_SRC (vfcomp hw_example)) OR
        push_bit (GEN6_VE_STATE_DW1_COMP1__SHIFT (ve hw_example))
          (GEN6_VFCOMP_STORE_0 (vfcomp hw_example)) OR
        push_bit (GEN6_VE_STATE_DW1_COMP2__SHIFT (ve hw_example))
          (GEN6_VFCOMP_STORE_0 (vfcomp hw_example)) OR
        push_bit (GEN6_VE_STATE_DW1_COMP3__SHIFT (ve hw_example))
          (GEN6_VFCOMP_STORE_1_INT (vfcomp hw_example)))"
  unfolding vertex_element_store_modes
  by code_simp

section \<open>Theorems: the build as a whole\<close>

text \<open>
  A chain with a node that the assembler does not recognise is turned down before an
  object is allocated: nothing is built, nothing is destroyed.
\<close>

lemma create_unrecognised:
  assumes "\<exists>g \<in> set chain. dst_of g = None"
  shows "graphics_pipeline_create hw ext g chain =
     Some \<lparr> ret = XGL_ERROR_BAD_PIPELINE_DATA, pipeline_ret = None, destroyed = None \<rparr>"
  using walk_fails [OF assms, of zero_info]
  by (simp add: graphics_pipeline_create_def pipeline_create_info_init_def)

text \<open>
  C8. Put the compute-shader node anywhere into the chain of the scenario. Whatever the
  device, the macro values and the external functions, \<open>graphics_pipeline_create\<close>
  returns \<open>XGL_ERROR_BAD_PIPELINE_DATA\<close>, stores no pipeline, and has no object to
  destroy: the failure comes from assembling the chain, before the object that would
  hold the command words exists, so no command word has been written.
\<close>

theorem scenario_with_compute_fails:
  assumes "xs @ ys = scenario_chain"
  shows "graphics_pipeline_create hw ext g (xs @ compute_shader_node # ys) =
     Some \<lparr> ret = XGL_ERROR_BAD_PIPELINE_DATA, pipeline_ret = None, destroyed = None \<rparr>"
  by (rule create_unrecognised) (simp add: compute_shader_node_def)

theorem scenario_with_compute_fails_witness:
  "graphics_pipeline_create hw_example ext_example \<lparr> gen = 600, gt = 2 \<rparr>
     (scenario_chain @ [compute_shader_node]) =
     Some \<lparr> ret = XGL_ERROR_BAD_PIPELINE_DATA, pipeline_ret = None, destroyed = None \<rparr>"
  using scenario_with_compute_fails [of scenario_chain "[]" hw_example ext_example
      "\<lparr> gen = 600, gt = 2 \<rparr>"]
  by simp

text \<open>
  Without the compute node the same chain builds on the sample device: one URB command
  of three words, no vertex-element command.
\<close>

lemma scenario_builds:
  "map_option (\<lambda>r. (ret r, map_option (\<lambda>p. (cmd_len p, take 3 (cmds p))) (pipeline_ret r),
                     destroyed r))
     (graphics_pipeline_create hw_example ext_example \<lparr> gen = 600, gt = 2 \<rparr> scenario_chain) =
   Some (XGL_SUCCESS, Some (3, [0x78050001, 256, 0]), None)"
  by code_simp

end
